theory Spec2Isabelle
  imports Complex_Main "HOL-Library.Char_ord" "HOL-Library.List_Lexorder"
begin

section \<open>Values, exceptions and tables\<close>

text \<open>
  The notebook is a sequence of pandas / scikit-learn calls. A Python exception is a
  value: its class name and the labels it reports. \<open>'a res\<close> is the outcome of an
  expression that may raise.
\<close>

datatype exc = Raise (exc_type: string) (exc_arg: "string list")

type_synonym 'a res = "exc + 'a"

abbreviation KeyError :: "string list \<Rightarrow> exc" where
  "KeyError ls \<equiv> Raise ''KeyError'' ls"

abbreviation TypeError :: "string list \<Rightarrow> exc" where
  "TypeError ls \<equiv> Raise ''TypeError'' ls"

abbreviation ValueError :: "string list \<Rightarrow> exc" where
  "ValueError ls \<equiv> Raise ''ValueError'' ls"

abbreviation DataError :: "string list \<Rightarrow> exc" where
  "DataError ls \<equiv> Raise ''DataError'' ls"

definition ebind :: "'a res \<Rightarrow> ('a \<Rightarrow> 'b res) \<Rightarrow> 'b res" where
  "ebind m f = (case m of Inl e \<Rightarrow> Inl e | Inr x \<Rightarrow> f x)"

text \<open>
  A float64 cell: not-a-number (also pandas' missing value), the two infinities, or a
  finite number. Finite arithmetic is exact (rounding and overflow are not modelled);
  the special values follow IEEE 754 as numpy applies it, without raising.
\<close>

datatype fnum = NaN | PInf | NInf | Fin real

fun f_neg :: "fnum \<Rightarrow> fnum" where
  "f_neg NaN = NaN"
| "f_neg PInf = NInf"
| "f_neg NInf = PInf"
| "f_neg (Fin x) = Fin (- x)"

fun f_add :: "fnum \<Rightarrow> fnum \<Rightarrow> fnum" where
  "f_add NaN b = NaN"
| "f_add a NaN = NaN"
| "f_add PInf NInf = NaN"
| "f_add NInf PInf = NaN"
| "f_add PInf b = PInf"
| "f_add NInf b = NInf"
| "f_add (Fin x) PInf = PInf"
| "f_add (Fin x) NInf = NInf"
| "f_add (Fin x) (Fin y) = Fin (x + y)"

definition f_sub :: "fnum \<Rightarrow> fnum \<Rightarrow> fnum" where
  "f_sub a b = f_add a (f_neg b)"

fun f_sq :: "fnum \<Rightarrow> fnum" where
  "f_sq NaN = NaN"
| "f_sq PInf = PInf"
| "f_sq NInf = PInf"
| "f_sq (Fin x) = Fin (x * x)"

fun f_sqrt :: "fnum \<Rightarrow> fnum" where
  "f_sqrt NaN = NaN"
| "f_sqrt PInf = PInf"
| "f_sqrt NInf = NaN"
| "f_sqrt (Fin x) = (if x < 0 then NaN else Fin (sqrt x))"

text \<open>
  Series division: a zero divisor gives an infinity of the dividend's sign, or NaN for
  \<open>0 / 0\<close>; no ZeroDivisionError is raised.
\<close>

fun f_div :: "fnum \<Rightarrow> fnum \<Rightarrow> fnum" where
  "f_div NaN b = NaN"
| "f_div a NaN = NaN"
| "f_div PInf PInf = NaN"
| "f_div PInf NInf = NaN"
| "f_div NInf PInf = NaN"
| "f_div NInf NInf = NaN"
| "f_div PInf (Fin y) = (if y < 0 then NInf else PInf)"
| "f_div NInf (Fin y) = (if y < 0 then PInf else NInf)"
| "f_div (Fin x) PInf = Fin 0"
| "f_div (Fin x) NInf = Fin 0"
| "f_div (Fin x) (Fin y) =
     (if y = 0 then (if x = 0 then NaN else if 0 < x then PInf else NInf)
      else Fin (x / y))"

fun f_finite :: "fnum \<Rightarrow> bool" where
  "f_finite (Fin x) = True"
| "f_finite v = False"

text \<open>
  A column is numeric (float64; integer columns embed) or of dtype object (strings, with
  \<open>None\<close> for a missing value). A DataFrame is its columns in order.
\<close>

datatype column = Numeric "fnum list" | Object "string option list"

type_synonym frame = "(string \<times> column) list"

definition columns :: "frame \<Rightarrow> string list" where
  "columns df = map fst df"

fun col_len :: "column \<Rightarrow> nat" where
  "col_len (Numeric xs) = length xs"
| "col_len (Object xs) = length xs"

text \<open>The value of one cell, whatever the dtype of its column.\<close>

datatype cell = Missing | Text string | Number fnum

fun cells_of :: "column \<Rightarrow> cell list" where
  "cells_of (Object xs) = map (\<lambda>x. case x of None \<Rightarrow> Missing | Some s \<Rightarrow> Text s) xs"
| "cells_of (Numeric xs) = map (\<lambda>x. if x = NaN then Missing else Number x) xs"

text \<open>\<open>df[c]\<close>: KeyError when the label is absent.\<close>

definition getitem :: "frame \<Rightarrow> string \<Rightarrow> column res" where
  "getitem df c = (case map_of df c of None \<Rightarrow> Inl (KeyError [c]) | Some v \<Rightarrow> Inr v)"

text \<open>\<open>df[c] = v\<close>: replaces the column in place, or appends a new last column.\<close>

fun setitem :: "frame \<Rightarrow> string \<Rightarrow> column \<Rightarrow> frame" where
  "setitem [] c v = [(c, v)]"
| "setitem ((n, w) # df) c v = (if n = c then (c, v) # df else (n, w) # setitem df c v)"

text \<open>\<open>df[[c1, ..., cn]]\<close>: KeyError naming every absent label.\<close>

definition getitems :: "frame \<Rightarrow> string list \<Rightarrow> column list res" where
  "getitems df cs =
     (case filter (\<lambda>c. map_of df c = None) cs of
        [] \<Rightarrow> Inr (map (\<lambda>c. the (map_of df c)) cs)
      | m # ms \<Rightarrow> Inl (KeyError (m # ms)))"

text \<open>\<open>df[[c1, ..., cn]] = [v1, ..., vn]\<close>, column by column.\<close>

fun setitems :: "frame \<Rightarrow> string list \<Rightarrow> column list \<Rightarrow> frame" where
  "setitems df (c # cs) (v # vs) = setitems (setitem df c v) cs vs"
| "setitems df cs vs = df"

text \<open>\<open>df.drop(columns=cs)\<close>: KeyError naming every absent label, else the other columns.\<close>

definition remove_columns :: "frame \<Rightarrow> string list \<Rightarrow> frame" where
  "remove_columns df cs = filter (\<lambda>(n, v). n \<notin> set cs) df"

definition drop_columns :: "frame \<Rightarrow> string list \<Rightarrow> frame res" where
  "drop_columns df cs =
     (case filter (\<lambda>c. map_of df c = None) cs of
        [] \<Rightarrow> Inr (remove_columns df cs)
      | m # ms \<Rightarrow> Inl (KeyError (m # ms)))"

text \<open>\<open>df[[c1, ..., cn]]\<close> as a table of its own: the chosen columns, in the order asked for.\<close>

definition select_columns :: "frame \<Rightarrow> string list \<Rightarrow> frame res" where
  "select_columns df cs =
     (case filter (\<lambda>c. map_of df c = None) cs of
        [] \<Rightarrow> Inr (map (\<lambda>c. (c, the (map_of df c))) cs)
      | m # ms \<Rightarrow> Inl (KeyError (m # ms)))"

text \<open>
  The number of rows. Assigning a plain array (not a Series) to a column is refused by
  pandas when the array's length is not the number of rows (ValueError).
\<close>

definition nrows :: "frame \<Rightarrow> nat" where
  "nrows df = (case df of [] \<Rightarrow> 0 | (n, c) # rest \<Rightarrow> col_len c)"

text \<open>The first column, if there is one; its length is the number of rows.\<close>

definition first_column :: "frame \<Rightarrow> (string \<times> column) option" where
  "first_column df = (case df of [] \<Rightarrow> None | x # rest \<Rightarrow> Some x)"

text \<open>A DataFrame proper: the labels are distinct and every column has one value per row.\<close>

definition wf_frame :: "frame \<Rightarrow> bool" where
  "wf_frame df = (distinct (map fst df) \<and> list_all (\<lambda>(n, c). col_len c = nrows df) df)"

text \<open>\<open>df[c] = array\<close>, with the length check.\<close>

definition setitem_array :: "frame \<Rightarrow> string \<Rightarrow> column \<Rightarrow> frame res" where
  "setitem_array df c v =
     (if df \<noteq> [] \<and> col_len v \<noteq> nrows df then Inl (ValueError [''Length of values''])
      else Inr (setitem df c v))"

text \<open>Element-wise Series arithmetic; an object (string) operand raises TypeError.\<close>

fun series_sub :: "column \<Rightarrow> column \<Rightarrow> fnum list res" where
  "series_sub (Numeric xs) (Numeric ys) = Inr (map2 f_sub xs ys)"
| "series_sub a b = Inl (TypeError [''-''])"

fun series_div :: "column \<Rightarrow> column \<Rightarrow> fnum list res" where
  "series_div (Numeric xs) (Numeric ys) = Inr (map2 f_div xs ys)"
| "series_div a b = Inl (TypeError [''/''])"

fun series_add_scalar :: "column \<Rightarrow> real \<Rightarrow> fnum list res" where
  "series_add_scalar (Numeric xs) k = Inr (map (\<lambda>x. f_add x (Fin k)) xs)"
| "series_add_scalar (Object xs) k = Inl (TypeError [''+''])"

section \<open>Dates and times\<close>

text \<open>
  A parsed timestamp. How pandas reads a string is the library's business: the parsers
  are parameters (\<open>None\<close>: the string does not parse, pandas raises a ValueError),
  and so is the clock read by \<open>pd.Timestamp('now')\<close>.
\<close>

datatype timestamp =
  Timestamp (ts_year: int) (ts_month: int) (ts_day: int) (ts_hour: nat) (ts_minute: nat) (ts_second: nat)

text \<open>Days since 1970-01-01 in the proleptic Gregorian calendar; Monday is day 0 of the week.\<close>

definition days_from_civil :: "int \<Rightarrow> int \<Rightarrow> int \<Rightarrow> int" where
  "days_from_civil y m d =
     (let y' = (if m \<le> 2 then y - 1 else y);
          era = y' div 400;
          yoe = y' - era * 400;
          doy = (153 * (if 2 < m then m - 3 else m + 9) + 2) div 5 + d - 1;
          doe = yoe * 365 + yoe div 4 - yoe div 100 + doy
      in era * 146097 + doe - 719468)"

definition dayofweek :: "timestamp \<Rightarrow> nat" where
  "dayofweek t = nat ((days_from_civil (ts_year t) (ts_month t) (ts_day t) + 3) mod 7)"

record pandas_env =
  strptime_hms :: "string \<Rightarrow> timestamp option"
  parse_datetime :: "string \<Rightarrow> timestamp option"
  epoch_datetime :: "real \<Rightarrow> timestamp option"
  now :: timestamp
  count_min_periods :: nat

text \<open>
  \<open>count_min_periods\<close> is what \<open>rolling(window=3).count()\<close> takes for the
  \<open>min_periods\<close> the notebook leaves out: the window size (3) in pandas 2, and 0 in
  the pandas 1 releases, where \<open>count\<close> alone kept that older default.
\<close>

fun parse_cells :: "(string \<Rightarrow> timestamp option) \<Rightarrow> string option list \<Rightarrow> timestamp option list res" where
  "parse_cells p [] = Inr []"
| "parse_cells p (None # xs) = ebind (parse_cells p xs) (\<lambda>ts. Inr (None # ts))"
| "parse_cells p (Some s # xs) =
     (case p s of
        None \<Rightarrow> Inl (ValueError [s])
      | Some t \<Rightarrow> ebind (parse_cells p xs) (\<lambda>ts. Inr (Some t # ts)))"

fun epoch_cells :: "(real \<Rightarrow> timestamp option) \<Rightarrow> fnum list \<Rightarrow> timestamp option list res" where
  "epoch_cells p [] = Inr []"
| "epoch_cells p (NaN # xs) = ebind (epoch_cells p xs) (\<lambda>ts. Inr (None # ts))"
| "epoch_cells p (Fin x # xs) =
     (case p x of
        None \<Rightarrow> Inl (ValueError [''OutOfBoundsDatetime''])
      | Some t \<Rightarrow> ebind (epoch_cells p xs) (\<lambda>ts. Inr (Some t # ts)))"
| "epoch_cells p (v # xs) = Inl (ValueError [''OutOfBoundsDatetime''])"

text \<open>
  \<open>pd.to_datetime(s, format='%H:%M:%S')\<close>: strings are parsed with the format, a
  missing value becomes NaT (\<open>None\<close>), a number does not match the format.
\<close>

fun to_datetime_format :: "pandas_env \<Rightarrow> column \<Rightarrow> timestamp option list res" where
  "to_datetime_format env (Object xs) = parse_cells (strptime_hms env) xs"
| "to_datetime_format env (Numeric xs) =
     (if \<forall>x \<in> set xs. x = NaN then Inr (map (\<lambda>x. None) xs)
      else Inl (ValueError [''%H:%M:%S'']))"

text \<open>\<open>pd.to_datetime(s)\<close>: strings are parsed, numbers are read as time since the epoch.\<close>

fun to_datetime :: "pandas_env \<Rightarrow> column \<Rightarrow> timestamp option list res" where
  "to_datetime env (Object xs) = parse_cells (parse_datetime env) xs"
| "to_datetime env (Numeric xs) = epoch_cells (epoch_datetime env) xs"

definition dt_field :: "(timestamp \<Rightarrow> real) \<Rightarrow> timestamp option list \<Rightarrow> fnum list" where
  "dt_field f ts = map (\<lambda>t. case t of None \<Rightarrow> NaN | Some u \<Rightarrow> Fin (f u)) ts"

section \<open>Group-wise transforms\<close>

text \<open>
  \<open>df.groupby(key)[col].transform(f)\<close>: the rows are grouped by key (a missing key
  belongs to no group), \<open>f\<close> maps the values of one group, in row order, to as many
  results, and each row receives the result at its position in its group. A row with a
  missing key receives NaN.
\<close>

definition group_values :: "'k option list \<Rightarrow> 'a list \<Rightarrow> 'k \<Rightarrow> 'a list" where
  "group_values ks vs k = map snd (filter (\<lambda>(k', v). k' = Some k) (zip ks vs))"

definition group_pos :: "'k option list \<Rightarrow> nat \<Rightarrow> nat" where
  "group_pos ks i = length (filter (\<lambda>k'. k' = ks ! i) (take i ks))"

definition groupby_transform :: "'k option list \<Rightarrow> fnum list \<Rightarrow> (fnum list \<Rightarrow> fnum list) \<Rightarrow> fnum list" where
  "groupby_transform ks vs f =
     map (\<lambda>i. case ks ! i of None \<Rightarrow> NaN | Some k \<Rightarrow> f (group_values ks vs k) ! group_pos ks i)
       [0..<length ks]"

definition group_keys :: "column \<Rightarrow> cell option list" where
  "group_keys c = map (\<lambda>x. if x = Missing then None else Some x) (cells_of c)"

definition transform_by :: "column \<Rightarrow> fnum list \<Rightarrow> (fnum list \<Rightarrow> fnum list) \<Rightarrow> fnum list" where
  "transform_by key vs f = groupby_transform (group_keys key) vs f"

text \<open>
  \<open>x.rolling(window=w).count()\<close>: at each position, the number of present (non-NaN)
  values among the last \<open>w\<close> rows up to and including it, or NaN when the window holds
  fewer than \<open>min_periods\<close> rows.
\<close>

definition rolling_count_at :: "nat \<Rightarrow> nat \<Rightarrow> fnum list \<Rightarrow> fnum" where
  "rolling_count_at mp w xs =
     (let win = drop (length xs - w) xs
      in if length win < mp then NaN else Fin (real (length (filter (\<lambda>x. x \<noteq> NaN) win))))"

definition rolling_count :: "nat \<Rightarrow> nat \<Rightarrow> fnum list \<Rightarrow> fnum list" where
  "rolling_count mp w xs = map (\<lambda>p. rolling_count_at mp w (take (Suc p) xs)) [0..<length xs]"

text \<open>\<open>transform('mean')\<close>: the mean of the group's present values, for every row of it.\<close>

definition mean_skipna :: "fnum list \<Rightarrow> fnum" where
  "mean_skipna xs =
     (let ys = filter (\<lambda>x. x \<noteq> NaN) xs
      in if ys = [] then NaN else f_div (foldl f_add (Fin 0) ys) (Fin (real (length ys))))"

definition group_mean :: "fnum list \<Rightarrow> fnum list" where
  "group_mean xs = replicate (length xs) (mean_skipna xs)"

section \<open>The ordinal encoder\<close>

text \<open>
  \<open>OrdinalEncoder(handle_unknown='use_encoded_value', unknown_value=-1)\<close>. Fitting
  records, per column, the sorted distinct values, a missing value last. Transforming
  gives a value its position in that list; a value that is not in the list gets the
  unknown value -1, and a missing value that was seen when fitting stays missing.
\<close>

datatype ordinal_encoder = OrdinalEncoder (categories: "cell list list")

type_synonym encoders = "(string \<times> ordinal_encoder) list"

fun f_le :: "fnum \<Rightarrow> fnum \<Rightarrow> bool" where
  "f_le NInf b = True"
| "f_le a PInf = True"
| "f_le (Fin x) (Fin y) = (x \<le> y)"
| "f_le a b = False"

fun insort_f :: "fnum \<Rightarrow> fnum list \<Rightarrow> fnum list" where
  "insort_f x [] = [x]"
| "insort_f x (y # ys) = (if f_le x y then x # y # ys else y # insort_f x ys)"

definition sort_f :: "fnum list \<Rightarrow> fnum list" where
  "sort_f xs = foldr insort_f xs []"

fun fit_column :: "column \<Rightarrow> cell list" where
  "fit_column (Object xs) =
     map Text (sort (remdups (map the (filter (\<lambda>x. x \<noteq> None) xs))))
       @ (if None \<in> set xs then [Missing] else [])"
| "fit_column (Numeric xs) =
     map Number (sort_f (remdups (filter (\<lambda>x. x \<noteq> NaN) xs)))
       @ (if NaN \<in> set xs then [Missing] else [])"

definition ordinal_fit :: "column list \<Rightarrow> ordinal_encoder" where
  "ordinal_fit cols = OrdinalEncoder (map fit_column cols)"

fun index_of :: "'a \<Rightarrow> 'a list \<Rightarrow> nat option" where
  "index_of x [] = None"
| "index_of x (y # ys) = (if x = y then Some 0 else map_option Suc (index_of x ys))"

definition encode_cell :: "cell list \<Rightarrow> cell \<Rightarrow> fnum" where
  "encode_cell cats x =
     (case index_of x cats of
        None \<Rightarrow> Fin (- 1)
      | Some i \<Rightarrow> if x = Missing then NaN else Fin (real i))"

text \<open>A table with another number of columns than the fitted one is refused (ValueError).\<close>

definition ordinal_transform :: "ordinal_encoder \<Rightarrow> column list \<Rightarrow> column list res" where
  "ordinal_transform enc cols =
     (if length cols \<noteq> length (categories enc) then Inl (ValueError [''n_features''])
      else Inr (map2 (\<lambda>cats col. Numeric (map (encode_cell cats) (cells_of col)))
                  (categories enc) cols))"

section \<open>Feature engineering\<close>

text \<open>
  The statements of \<open>feature_engineering\<close>, in source order. Each one evaluates its
  right-hand side, which may raise, and then assigns to the table \<open>df\<close>; the operands
  are evaluated left to right, as Python does.
\<close>

definition stmt_hour :: "pandas_env \<Rightarrow> frame \<Rightarrow> frame res" where
  "stmt_hour env df =
     ebind (getitem df ''trans_time'') (\<lambda>c.
     ebind (to_datetime_format env c) (\<lambda>ts.
     Inr (setitem df ''hour'' (Numeric (dt_field (\<lambda>t. real (ts_hour t)) ts)))))"

definition stmt_day_of_week :: "pandas_env \<Rightarrow> frame \<Rightarrow> frame res" where
  "stmt_day_of_week env df =
     ebind (getitem df ''trans_date'') (\<lambda>c.
     ebind (to_datetime env c) (\<lambda>ts.
     Inr (setitem df ''day_of_week'' (Numeric (dt_field (\<lambda>t. real (dayofweek t)) ts)))))"

definition stmt_age :: "pandas_env \<Rightarrow> frame \<Rightarrow> frame res" where
  "stmt_age env df =
     ebind (getitem df ''dob'') (\<lambda>c.
     ebind (to_datetime env c) (\<lambda>ts.
     Inr (setitem df ''age''
            (Numeric (dt_field (\<lambda>t. real_of_int (ts_year (now env) - ts_year t)) ts)))))"

definition stmt_distance :: "frame \<Rightarrow> frame res" where
  "stmt_distance df =
     ebind (getitem df ''lat'') (\<lambda>lat.
     ebind (getitem df ''merch_lat'') (\<lambda>merch_lat.
     ebind (series_sub lat merch_lat) (\<lambda>dlat.
     ebind (getitem df ''long'') (\<lambda>long.
     ebind (getitem df ''merch_long'') (\<lambda>merch_long.
     ebind (series_sub long merch_long) (\<lambda>dlong.
     Inr (setitem df ''distance''
            (Numeric (map f_sqrt (map2 f_add (map f_sq dlat) (map f_sq dlong)))))))))))"

definition stmt_amt_per_capita :: "frame \<Rightarrow> frame res" where
  "stmt_amt_per_capita df =
     ebind (getitem df ''amt'') (\<lambda>amt.
     ebind (getitem df ''city_pop'') (\<lambda>city_pop.
     ebind (series_add_scalar city_pop 1) (\<lambda>pop1.
     ebind (series_div amt (Numeric pop1)) (\<lambda>q.
     Inr (setitem df ''amt_per_capita'' (Numeric q))))))"

text \<open>Rolling over a column of dtype object is refused by pandas (DataError).\<close>

definition stmt_trans_count :: "pandas_env \<Rightarrow> frame \<Rightarrow> frame res" where
  "stmt_trans_count env df =
     ebind (getitem df ''cc_num'') (\<lambda>cc_num.
     ebind (getitem df ''unix_time'') (\<lambda>unix_time.
     (case unix_time of
        Object xs \<Rightarrow> Inl (DataError [''unix_time''])
      | Numeric xs \<Rightarrow>
          Inr (setitem df ''trans_count''
                 (Numeric (transform_by cc_num xs (rolling_count (count_min_periods env) 3)))))))"

definition stmt_amt_ratio :: "frame \<Rightarrow> frame res" where
  "stmt_amt_ratio df =
     ebind (getitem df ''amt'') (\<lambda>amt.
     ebind (getitem df ''cc_num'') (\<lambda>cc_num.
     (case amt of
        Object xs \<Rightarrow> Inl (TypeError [''mean''])
      | Numeric xs \<Rightarrow>
          ebind (series_div amt (Numeric (transform_by cc_num xs group_mean))) (\<lambda>q.
          Inr (setitem df ''amt_ratio'' (Numeric q))))))"

definition cat_cols :: "string list" where
  "cat_cols = [''category'', ''gender'', ''job'', ''state'', ''city'', ''merchant'']"

text \<open>
  The encoding branch: with \<open>fit_encoders\<close> a new encoder is fitted on the table's
  categorical columns and stored in a new dict; otherwise the encoder is read from the
  dict passed in (\<open>None\<close> is not subscriptable) and applied.
\<close>

definition stmt_encode :: "encoders option \<Rightarrow> bool \<Rightarrow> frame \<Rightarrow> (frame \<times> encoders) res" where
  "stmt_encode encoders fit_encoders df =
     (if fit_encoders then
        ebind (getitems df cat_cols) (\<lambda>cs.
        ebind (ordinal_transform (ordinal_fit cs) cs) (\<lambda>vs.
        Inr (setitems df cat_cols vs, [(''ordinal_encoder'', ordinal_fit cs)])))
      else
        (case encoders of
           None \<Rightarrow> Inl (TypeError [''NoneType''])
         | Some d \<Rightarrow>
             (case map_of d ''ordinal_encoder'' of
                None \<Rightarrow> Inl (KeyError [''ordinal_encoder''])
              | Some enc \<Rightarrow>
                  ebind (getitems df cat_cols) (\<lambda>cs.
                  ebind (ordinal_transform enc cs) (\<lambda>vs.
                  Inr (setitems df cat_cols vs, d))))))"

definition dropped_cols :: "string list" where
  "dropped_cols = [''trans_date'', ''trans_time'', ''dob'', ''first'', ''last'', ''street'']"

text \<open>
  Statements run in sequence on the one table object; when one raises, the table keeps
  what the earlier statements did to it.
\<close>

fun exec :: "(frame \<Rightarrow> frame res) list \<Rightarrow> frame \<Rightarrow> frame \<times> exc option" where
  "exec [] df = (df, None)"
| "exec (s # ss) df = (case s df of Inl e \<Rightarrow> (df, Some e) | Inr df' \<Rightarrow> exec ss df')"

definition derive_stmts :: "pandas_env \<Rightarrow> (frame \<Rightarrow> frame res) list" where
  "derive_stmts env =
     [stmt_hour env, stmt_day_of_week env, stmt_age env, stmt_distance,
      stmt_amt_per_capita, stmt_trans_count env, stmt_amt_ratio]"

text \<open>The columns the statements above add, in order.\<close>

definition derived_cols :: "string list" where
  "derived_cols = [''hour'', ''day_of_week'', ''age'', ''distance'', ''amt_per_capita'',
     ''trans_count'', ''amt_ratio'']"

text \<open>
  The body of \<open>feature_engineering\<close> on the table it is given: the state of that
  table when the call ends, and what the call returns (the encoders dict; the table it
  returns is the same object) or raises.
\<close>

definition feature_engineering_df ::
    "pandas_env \<Rightarrow> frame \<Rightarrow> encoders option \<Rightarrow> bool \<Rightarrow> frame \<times> encoders res" where
  "feature_engineering_df env df encoders fit_encoders =
     (case exec (derive_stmts env) df of
        (df1, Some e) \<Rightarrow> (df1, Inl e)
      | (df1, None) \<Rightarrow>
          (case stmt_encode encoders fit_encoders df1 of
             Inl e \<Rightarrow> (df1, Inl e)
           | Inr (df2, encs) \<Rightarrow>
               (case drop_columns df2 dropped_cols of
                  Inl e \<Rightarrow> (df2, Inl e)
                | Inr df3 \<Rightarrow> (df3, Inr encs))))"

text \<open>
  The call as Python makes it: \<open>df\<close> is a reference to the caller's DataFrame in the
  store, the statements mutate that object (\<open>df[...] = ...\<close>, \<open>drop(inplace=True)\<close>),
  and \<open>return df, encoders\<close> hands the same reference back.
\<close>

type_synonym heap = "nat \<Rightarrow> frame"

definition feature_engineering ::
    "pandas_env \<Rightarrow> heap \<Rightarrow> nat \<Rightarrow> encoders option \<Rightarrow> bool \<Rightarrow> heap \<times> (nat \<times> encoders) res" where
  "feature_engineering env h df encoders fit_encoders =
     (case feature_engineering_df env (h df) encoders fit_encoders of
        (d, Inl e) \<Rightarrow> (h(df := d), Inl e)
      | (d, Inr encs) \<Rightarrow> (h(df := d), Inr (df, encs)))"

text \<open>
  The mean of \<open>amt\<close> over all rows of the cardholder of row \<open>k\<close>, which is what
  \<open>groupby('cc_num')['amt'].transform('mean')\<close> holds in that row.
\<close>

definition cardholder_mean :: "column \<Rightarrow> fnum list \<Rightarrow> nat \<Rightarrow> fnum" where
  "cardholder_mean cc amt k =
     (case group_keys cc ! k of
        None \<Rightarrow> NaN
      | Some key \<Rightarrow> mean_skipna (group_values (group_keys cc) amt key))"

text \<open>The raw columns the call reads, in the order it first reads them.\<close>

definition expected_cols :: "string list" where
  "expected_cols = [''trans_time'', ''trans_date'', ''dob'', ''lat'', ''merch_lat'', ''long'',
     ''merch_long'', ''amt'', ''city_pop'', ''cc_num'', ''unix_time'', ''category'', ''gender'',
     ''job'', ''state'', ''city'', ''merchant'', ''first'', ''last'', ''street'']"

section \<open>Scaling\<close>

text \<open>
  \<open>StandardScaler\<close>: fitting records, per column, the mean and the (population)
  standard deviation of the present values, a zero deviation being replaced by 1;
  transforming subtracts the mean and divides by the deviation. Strings and infinities
  are refused (ValueError), missing values pass through.
\<close>

datatype standard_scaler = StandardScaler (scaler_mean: "fnum list") (scaler_scale: "fnum list")

fun numeric_values :: "column \<Rightarrow> fnum list res" where
  "numeric_values (Object xs) = Inl (ValueError [''could not convert string to float''])"
| "numeric_values (Numeric xs) =
     (if PInf \<in> set xs \<or> NInf \<in> set xs then Inl (ValueError [''infinity'']) else Inr xs)"

fun collect :: "'a res list \<Rightarrow> 'a list res" where
  "collect [] = Inr []"
| "collect (m # ms) = ebind m (\<lambda>x. ebind (collect ms) (\<lambda>xs. Inr (x # xs)))"

definition col_scale :: "fnum list \<Rightarrow> fnum" where
  "col_scale xs =
     (let m = mean_skipna xs;
          s = f_sqrt (mean_skipna (map (\<lambda>x. f_sq (f_sub x m)) xs))
      in if s = Fin 0 then Fin 1 else s)"

definition scaler_fit :: "column list \<Rightarrow> standard_scaler res" where
  "scaler_fit cols =
     ebind (collect (map numeric_values cols)) (\<lambda>xss.
     Inr (StandardScaler (map mean_skipna xss) (map col_scale xss)))"

definition scaler_transform :: "standard_scaler \<Rightarrow> column list \<Rightarrow> column list res" where
  "scaler_transform sc cols =
     ebind (collect (map numeric_values cols)) (\<lambda>xss.
     if length xss \<noteq> length (scaler_mean sc) then Inl (ValueError [''n_features''])
     else Inr (map (\<lambda>(xs, m, s). Numeric (map (\<lambda>x. f_div (f_sub x m) s) xs))
                 (zip xss (zip (scaler_mean sc) (scaler_scale sc)))))"

section \<open>The notebook\<close>

text \<open>
  The estimators whose code is the libraries': SMOTE, the stratified split and the
  gradient-boosted classifier. Each is a function of its seed and its inputs (a fixed
  library version, run twice on equal inputs with an equal seed, gives equal results);
  nothing else is assumed of them. The fitted classifier is its \<open>predict\<close> function.
\<close>

record ml_lib =
  smote_fit_resample :: "nat \<Rightarrow> frame \<Rightarrow> column \<Rightarrow> (frame \<times> column) res"
  train_test_split :: "nat \<Rightarrow> frame \<Rightarrow> column \<Rightarrow> (frame \<times> frame \<times> column \<times> column) res"
  gbc_fit :: "nat \<Rightarrow> frame \<Rightarrow> column \<Rightarrow> (frame \<Rightarrow> column res) res"

definition numeric_features :: "string list" where
  "numeric_features = [''amt'', ''lat'', ''long'', ''merch_lat'', ''merch_long'', ''city_pop'',
     ''amt_per_capita'', ''age'', ''hour'', ''distance'']"

text \<open>\<open>X[numeric_features] = scaler.transform(X[numeric_features])\<close>\<close>

definition scale_numeric :: "standard_scaler \<Rightarrow> frame \<Rightarrow> frame res" where
  "scale_numeric sc X =
     ebind (getitems X numeric_features) (\<lambda>cols.
     ebind (scaler_transform sc cols) (\<lambda>vs.
     Inr (setitems X numeric_features vs)))"

text \<open>
  The last cell: predict the test rows, store the labels in the test table, keep the
  two columns \<open>id\<close> and \<open>is_fraud\<close>, and write them with \<open>to_csv(index=False)\<close>:
  a header line and one record per row.
\<close>

definition to_csv :: "frame \<Rightarrow> string list \<times> cell list list" where
  "to_csv df = (map fst df, map (\<lambda>i. map (\<lambda>(n, c). cells_of c ! i) df) [0..<nrows df])"

definition submission ::
    "(frame \<Rightarrow> column res) \<Rightarrow> frame \<Rightarrow> frame \<Rightarrow> (frame \<times> frame \<times> (string list \<times> cell list list)) res" where
  "submission predict X_test_submission test =
     ebind (predict X_test_submission) (\<lambda>y_test_pred.
     ebind (setitem_array test ''is_fraud'' y_test_pred) (\<lambda>test'.
     ebind (select_columns test' [''id'', ''is_fraud'']) (\<lambda>sub.
     Inr (test', sub, to_csv sub))))"

text \<open>What a run of the notebook leaves behind: its variables and the file written.\<close>

record run =
  r_train :: frame
  r_test :: frame
  r_encoders :: encoders
  r_scaler :: standard_scaler
  r_X_train :: frame
  r_X_val :: frame
  r_y_train :: column
  r_y_val :: column
  r_y_pred :: column
  r_X_test_submission :: frame
  r_submission :: frame
  r_csv :: "string list \<times> cell list list"

text \<open>
  The cells in order, every seed being the constant 42. An exception in any call ends
  the run. The scores and the confusion matrix of the evaluation cells are only printed
  and plotted; they are not part of the result.
\<close>

definition pipeline :: "pandas_env \<Rightarrow> ml_lib \<Rightarrow> frame \<Rightarrow> frame \<Rightarrow> run res" where
  "pipeline env ml train test =
     (case feature_engineering_df env train None True of
        (train1, Inl e) \<Rightarrow> Inl e
      | (train1, Inr encoders) \<Rightarrow>
     (case feature_engineering_df env test (Some encoders) False of
        (test1, Inl e) \<Rightarrow> Inl e
      | (test1, Inr unused) \<Rightarrow>
     ebind (drop_columns train1 [''is_fraud'', ''trans_num'', ''id'']) (\<lambda>X.
     ebind (getitem train1 ''is_fraud'') (\<lambda>y.
     ebind (drop_columns test1 [''trans_num'', ''id'']) (\<lambda>X_test_submission.
     ebind (smote_fit_resample ml 42 X y) (\<lambda>(X_smote, y_smote).
     ebind (train_test_split ml 42 X_smote y_smote) (\<lambda>(X_train, X_val, y_train, y_val).
     ebind (getitems X_train numeric_features) (\<lambda>cols.
     ebind (scaler_fit cols) (\<lambda>scaler.
     ebind (scale_numeric scaler X_train) (\<lambda>X_train'.
     ebind (scale_numeric scaler X_val) (\<lambda>X_val'.
     ebind (scale_numeric scaler X_test_submission) (\<lambda>X_test_submission'.
     ebind (gbc_fit ml 42 X_train' y_train) (\<lambda>predict.
     ebind (predict X_val') (\<lambda>y_pred.
     ebind (submission predict X_test_submission' test1) (\<lambda>(test2, sub, csv).
     Inr \<lparr> r_train = train1, r_test = test2, r_encoders = encoders, r_scaler = scaler,
           r_X_train = X_train', r_X_val = X_val', r_y_train = y_train, r_y_val = y_val,
           r_y_pred = y_pred, r_X_test_submission = X_test_submission',
           r_submission = sub, r_csv = csv \<rparr>)))))))))))))))"

section \<open>The class balancer\<close>

text \<open>
  Modelled from the spec: the oversampler is imbalanced-learn's \<open>SMOTE.fit_resample\<close>,
  which the notebook only calls; its code is missing from the sources. The model
  follows the spec's section on the class balancer: for minority-class samples, new
  points are synthesised by interpolating between a sample and one of its nearest
  minority-class neighbours, until both classes have the same count; the minority
  class must have at least as many members as the neighbour count (5), else the call
  fails with InsufficientSamplesError. The random choices (which sample, which
  neighbour, how far along the segment) come from a generator that is a function of
  the seed and the number of the draw.
\<close>

definition smote_k :: nat where
  "smote_k = 5"

text \<open>The table as rows of finite numbers; SMOTE refuses strings, NaN and infinities.\<close>

fun finite_values :: "column \<Rightarrow> real list res" where
  "finite_values (Object xs) = Inl (ValueError [''could not convert string to float''])"
| "finite_values (Numeric xs) =
     (if list_all f_finite xs then Inr (map (\<lambda>x. case x of Fin r \<Rightarrow> r | _ \<Rightarrow> 0) xs)
      else Inl (ValueError [''Input contains NaN or infinity'']))"

definition row_at :: "real list list \<Rightarrow> nat \<Rightarrow> real list" where
  "row_at cols i = map (\<lambda>c. c ! i) cols"

definition dist2 :: "real list \<Rightarrow> real list \<Rightarrow> real" where
  "dist2 a b = sum_list (map2 (\<lambda>x y. (x - y) * (x - y)) a b)"

definition neighbours :: "real list list \<Rightarrow> nat \<Rightarrow> real list list" where
  "neighbours M i =
     take smote_k (sort_key (dist2 (M ! i)) (take i M @ drop (Suc i) M))"

definition interpolate :: "real list \<Rightarrow> real list \<Rightarrow> real \<Rightarrow> real list" where
  "interpolate a b g = map2 (\<lambda>x y. x + max 0 (min 1 g) * (y - x)) a b"

definition synthesise :: "(nat \<Rightarrow> nat \<times> nat \<times> real) \<Rightarrow> real list list \<Rightarrow> nat \<Rightarrow> real list" where
  "synthesise draw M j =
     (case draw j of (i, n, g) \<Rightarrow>
        (let base = i mod length M; ns = neighbours M base
         in interpolate (M ! base) (ns ! (n mod length ns)) g))"

definition label_count :: "real \<Rightarrow> column \<Rightarrow> nat" where
  "label_count l y = (case y of Numeric ys \<Rightarrow> length (filter (\<lambda>v. v = Fin l) ys) | Object ys \<Rightarrow> 0)"

definition binary_labels :: "column \<Rightarrow> bool" where
  "binary_labels y = (case y of Numeric ys \<Rightarrow> list_all (\<lambda>v. v = Fin 0 \<or> v = Fin 1) ys | Object ys \<Rightarrow> False)"

definition append_rows :: "frame \<Rightarrow> real list list \<Rightarrow> frame" where
  "append_rows X rows =
     map (\<lambda>(j, (n, c)). (n, case c of Numeric xs \<Rightarrow> Numeric (xs @ map (\<lambda>r. Fin (r ! j)) rows)
                                | Object xs \<Rightarrow> Object xs))
       (zip [0..<length X] X)"

definition smote_spec ::
    "(nat \<Rightarrow> nat \<Rightarrow> nat \<times> nat \<times> real) \<Rightarrow> nat \<Rightarrow> frame \<Rightarrow> column \<Rightarrow> (frame \<times> column) res" where
  "smote_spec rng seed X y =
     (if \<not> binary_labels y then Inl (ValueError [''Unknown label type''])
      else if col_len y \<noteq> nrows X \<or> \<not> wf_frame X
        then Inl (ValueError [''inconsistent numbers of samples''])
      else
        ebind (collect (map (\<lambda>(n, c). finite_values c) X)) (\<lambda>cols.
        (let n1 = label_count 1 y; n0 = label_count 0 y;
             minority = (if n1 \<le> n0 then 1 else 0);
             n_min = min n0 n1; n_new = max n0 n1 - n_min;
             M = map (row_at cols)
                   (filter (\<lambda>i. cells_of y ! i = Number (Fin minority)) [0..<col_len y])
         in if n_min < smote_k then Inl (Raise ''InsufficientSamplesError'' [])
            else Inr (append_rows X (map (synthesise (rng seed) M) [0..<n_new]),
                      Numeric ((case y of Numeric ys \<Rightarrow> ys | Object ys \<Rightarrow> [])
                                 @ replicate n_new (Fin minority))))))"

section \<open>A reference environment\<close>

text \<open>
  The formats of the course's CSV files, for running the model on concrete tables:
  times as \<open>HH:MM:SS\<close> (read by \<open>strptime\<close> on 1900-01-01) and dates as
  \<open>YYYY-MM-DD\<close>.
\<close>

definition digit_val :: "char \<Rightarrow> nat option" where
  "digit_val c =
     (let n = (of_char c :: nat) in if 48 \<le> n \<and> n \<le> 57 then Some (n - 48) else None)"

fun digits_val :: "nat \<Rightarrow> string \<Rightarrow> nat option" where
  "digits_val acc [] = Some acc"
| "digits_val acc (c # cs) =
     (case digit_val c of None \<Rightarrow> None | Some d \<Rightarrow> digits_val (10 * acc + d) cs)"

definition nat_of_string :: "string \<Rightarrow> nat option" where
  "nat_of_string s = (if s = [] then None else digits_val 0 s)"

fun split_on :: "char \<Rightarrow> string \<Rightarrow> string list" where
  "split_on d [] = [[]]"
| "split_on d (c # cs) =
     (if c = d then [] # split_on d cs
      else (case split_on d cs of [] \<Rightarrow> [[c]] | w # ws \<Rightarrow> (c # w) # ws))"

definition iso_hms :: "string \<Rightarrow> timestamp option" where
  "iso_hms s =
     (case map nat_of_string (split_on CHR '':'' s) of
        [Some h, Some m, Some sec] \<Rightarrow>
          if h < 24 \<and> m < 60 \<and> sec < 62 then Some (Timestamp 1900 1 1 h m sec) else None
      | _ \<Rightarrow> None)"

definition iso_date :: "string \<Rightarrow> timestamp option" where
  "iso_date s =
     (case map nat_of_string (split_on CHR ''-'' s) of
        [Some y, Some m, Some d] \<Rightarrow>
          if 1 \<le> m \<and> m \<le> 12 \<and> 1 \<le> d \<and> d \<le> 31
          then Some (Timestamp (int y) (int m) (int d) 0 0 0) else None
      | _ \<Rightarrow> None)"

definition iso_env :: "timestamp \<Rightarrow> nat \<Rightarrow> pandas_env" where
  "iso_env clock mp =
     \<lparr> strptime_hms = iso_hms, parse_datetime = iso_date, epoch_datetime = (\<lambda>x. None),
       now = clock, count_min_periods = mp \<rparr>"

text \<open>A raw transaction table with the columns of the course's files, two rows.\<close>

definition raw_table :: "frame" where
  "raw_table =
     [(''id'', Numeric [Fin 1, Fin 2]),
      (''trans_num'', Object [Some ''a1'', Some ''b2'']),
      (''trans_date'', Object [Some ''2024-01-15'', Some ''2024-01-16'']),
      (''trans_time'', Object [Some ''13:05:00'', Some ''23:59:59'']),
      (''unix_time'', Numeric [Fin 1705323900, Fin 1705449599]),
      (''category'', Object [Some ''grocery'', Some ''travel'']),
      (''amt'', Numeric [Fin 50, Fin 150]),
      (''cc_num'', Numeric [Fin 4000, Fin 4000]),
      (''first'', Object [Some ''Ann'', Some ''Ann'']),
      (''last'', Object [Some ''Lee'', Some ''Lee'']),
      (''gender'', Object [Some ''F'', Some ''F'']),
      (''street'', Object [Some ''1 Main St'', Some ''1 Main St'']),
      (''city'', Object [Some ''Boston'', Some ''Boston'']),
      (''state'', Object [Some ''MA'', Some ''MA'']),
      (''zip'', Numeric [Fin 2115, Fin 2115]),
      (''lat'', Numeric [Fin 3, Fin 3]),
      (''long'', Numeric [Fin 4, Fin 4]),
      (''city_pop'', Numeric [Fin 99, Fin 99]),
      (''job'', Object [Some ''Nurse'', Some ''Nurse'']),
      (''dob'', Object [Some ''1990-06-30'', Some ''1990-06-30'']),
      (''merchant'', Object [Some ''Acme'', Some ''Zeta'']),
      (''merch_lat'', Numeric [Fin 0, Fin 3]),
      (''merch_long'', Numeric [Fin 0, Fin 4])]"

text \<open>The encoders dict that fitting on the reference table returns.\<close>

definition raw_encoders :: encoders where
  "raw_encoders =
     [(''ordinal_encoder'',
       OrdinalEncoder
         [[Text ''grocery'', Text ''travel''], [Text ''F''], [Text ''Nurse''], [Text ''MA''],
          [Text ''Boston''], [Text ''Acme'', Text ''Zeta'']])]"

text \<open>A small test table for the last cell: identifiers 7 and 8.\<close>

definition predictions_table :: frame where
  "predictions_table = [(''id'', Numeric [Fin 7, Fin 8]), (''amt'', Numeric [Fin 50, Fin 150])]"

text \<open>The reference table with labels, as a training table.\<close>

definition train_table :: frame where
  "train_table = setitem raw_table ''is_fraud'' (Numeric [Fin 0, Fin 1])"

text \<open>
  Stand-ins for the three estimators, for running the notebook's own steps on a concrete
  table: no resampling, the whole table as both subsets, and a classifier that labels a
  row by the sign of its scaled amount.
\<close>

definition stump_ml :: ml_lib where
  "stump_ml =
     \<lparr> smote_fit_resample = (\<lambda>seed X y. Inr (X, y)),
       train_test_split = (\<lambda>seed X y. Inr (X, X, y, y)),
       gbc_fit = (\<lambda>seed X y. Inr (\<lambda>X'.
          case map_of X' ''amt'' of
            Some (Numeric xs) \<Rightarrow> Inr (Numeric (map (\<lambda>x. if f_le (Fin 0) x then Fin 1 else Fin 0) xs))
          | _ \<Rightarrow> Inl (ValueError [''amt'']))) \<rparr>"

text \<open>
  A table of one feature with seven rows labelled 0 and five labelled 1, and a generator
  that always picks draw number \<open>j\<close>'s sample \<open>j\<close>, neighbour \<open>j\<close> and the midpoint.
\<close>

definition skewed_X :: frame where
  "skewed_X = [(''amt'', Numeric [Fin 1, Fin 2, Fin 3, Fin 4, Fin 5, Fin 6, Fin 7,
                                   Fin 10, Fin 20, Fin 30, Fin 40, Fin 50])]"

definition skewed_y :: column where
  "skewed_y = Numeric [Fin 0, Fin 0, Fin 0, Fin 0, Fin 0, Fin 0, Fin 0,
                       Fin 1, Fin 1, Fin 1, Fin 1, Fin 1]"

definition midpoint_rng :: "nat \<Rightarrow> nat \<Rightarrow> nat \<times> nat \<times> real" where
  "midpoint_rng seed j = (j, j, 1 / 2)"

section \<open>Properties of the table operations\<close>

lemma map_of_setitem: "map_of (setitem df c v) = (map_of df)(c \<mapsto> v)"
  by (induction df) (auto simp: fun_eq_iff)

lemma getitem_setitem: "getitem (setitem df c v) x = (if x = c then Inr v else getitem df x)"
  by (simp add: getitem_def map_of_setitem)

lemma getitem_Inr: "getitem df c = Inr v \<longleftrightarrow> map_of df c = Some v"
  by (simp add: getitem_def split: option.splits)

lemma getitem_Inl: "getitem df c = Inl e \<longleftrightarrow> map_of df c = None \<and> e = KeyError [c]"
  by (auto simp: getitem_def split: option.splits)

lemma map_of_setitems_other: "x \<notin> set cs \<Longrightarrow> map_of (setitems df cs vs) x = map_of df x"
  by (induction df cs vs rule: setitems.induct) (auto simp: map_of_setitem)

lemma map_of_setitems_nth:
  "distinct cs \<Longrightarrow> length vs = length cs \<Longrightarrow> j < length cs \<Longrightarrow>
   map_of (setitems df cs vs) (cs ! j) = Some (vs ! j)"
proof (induction df cs vs arbitrary: j rule: setitems.induct)
  case (1 df c cs v vs)
  show ?case
  proof (cases j)
    case 0
    with 1 show ?thesis by (simp add: map_of_setitems_other map_of_setitem)
  next
    case (Suc i)
    with 1 show ?thesis by simp
  qed
qed auto

lemma map_of_remove_columns:
  "map_of (remove_columns df cs) x = (if x \<in> set cs then None else map_of df x)"
  unfolding remove_columns_def by (induction df) auto

lemma drop_columns_Inr:
  "drop_columns df cs = Inr df' \<longleftrightarrow>
     (\<forall>c \<in> set cs. map_of df c \<noteq> None) \<and> df' = remove_columns df cs"
  by (auto simp: drop_columns_def filter_empty_conv split: list.splits)

lemma getitems_Inr:
  "getitems df cs = Inr vs \<longleftrightarrow>
     (\<forall>c \<in> set cs. map_of df c \<noteq> None) \<and> vs = map (\<lambda>c. the (map_of df c)) cs"
  by (auto simp: getitems_def filter_empty_conv split: list.splits)

lemma ebind_Inr: "ebind m f = Inr y \<longleftrightarrow> (\<exists>x. m = Inr x \<and> f x = Inr y)"
  by (cases m) (auto simp: ebind_def)

lemma series_sub_Inr: "series_sub a b = Inr r \<longleftrightarrow> (\<exists>xs ys. a = Numeric xs \<and> b = Numeric ys \<and> r = map2 f_sub xs ys)"
  by (cases a; cases b) auto

lemma series_div_Inr: "series_div a b = Inr r \<longleftrightarrow> (\<exists>xs ys. a = Numeric xs \<and> b = Numeric ys \<and> r = map2 f_div xs ys)"
  by (cases a; cases b) auto

lemma series_add_scalar_Inr: "series_add_scalar a k = Inr r \<longleftrightarrow> (\<exists>xs. a = Numeric xs \<and> r = map (\<lambda>x. f_add x (Fin k)) xs)"
  by (cases a) auto

lemma case_column_Inr:
  "(case c of Numeric xs \<Rightarrow> f xs | Object ys \<Rightarrow> Inl (e ys)) = Inr r \<longleftrightarrow> (\<exists>xs. c = Numeric xs \<and> f xs = Inr r)"
  by (cases c) auto

lemma stmt_hour_sets: "stmt_hour env d = Inr d' \<Longrightarrow> \<exists>v. d' = setitem d ''hour'' v"
  by (auto simp: stmt_hour_def ebind_Inr)

lemma stmt_day_of_week_sets: "stmt_day_of_week env d = Inr d' \<Longrightarrow> \<exists>v. d' = setitem d ''day_of_week'' v"
  by (auto simp: stmt_day_of_week_def ebind_Inr)

lemma stmt_age_sets: "stmt_age env d = Inr d' \<Longrightarrow> \<exists>v. d' = setitem d ''age'' v"
  by (auto simp: stmt_age_def ebind_Inr)

lemma stmt_distance_sets: "stmt_distance d = Inr d' \<Longrightarrow> \<exists>v. d' = setitem d ''distance'' v"
  by (auto simp: stmt_distance_def ebind_Inr)

lemma stmt_amt_per_capita_Inr:
  "stmt_amt_per_capita d = Inr d' \<longleftrightarrow>
     (\<exists>amt pop. map_of d ''amt'' = Some (Numeric amt) \<and> map_of d ''city_pop'' = Some (Numeric pop) \<and>
        d' = setitem d ''amt_per_capita''
               (Numeric (map2 f_div amt (map (\<lambda>x. f_add x (Fin 1)) pop))))"
  by (auto simp: stmt_amt_per_capita_def ebind_Inr getitem_Inr series_div_Inr series_add_scalar_Inr)

lemma stmt_trans_count_Inr:
  "stmt_trans_count env d = Inr d' \<longleftrightarrow>
     (\<exists>cc ut. map_of d ''cc_num'' = Some cc \<and> map_of d ''unix_time'' = Some (Numeric ut) \<and>
        d' = setitem d ''trans_count''
               (Numeric (transform_by cc ut (rolling_count (count_min_periods env) 3))))"
  by (auto simp: stmt_trans_count_def ebind_Inr getitem_Inr case_column_Inr)

lemma stmt_amt_ratio_Inr:
  "stmt_amt_ratio d = Inr d' \<longleftrightarrow>
     (\<exists>cc amt. map_of d ''cc_num'' = Some cc \<and> map_of d ''amt'' = Some (Numeric amt) \<and>
        d' = setitem d ''amt_ratio''
               (Numeric (map2 f_div amt (transform_by cc amt group_mean))))"
  by (auto simp: stmt_amt_ratio_def ebind_Inr getitem_Inr series_div_Inr case_column_Inr)

lemma derive_chain:
  "exec (derive_stmts env) df = (d7, None) \<longleftrightarrow>
     (\<exists>d1 d2 d3 d4 d5 d6. stmt_hour env df = Inr d1 \<and> stmt_day_of_week env d1 = Inr d2 \<and>
        stmt_age env d2 = Inr d3 \<and> stmt_distance d3 = Inr d4 \<and> stmt_amt_per_capita d4 = Inr d5 \<and>
        stmt_trans_count env d5 = Inr d6 \<and> stmt_amt_ratio d6 = Inr d7)"
  by (auto simp: derive_stmts_def split: sum.splits)

lemma length_cells_of: "length (cells_of c) = col_len c"
  by (cases c) auto

lemma length_group_keys: "length (group_keys c) = col_len c"
  by (simp add: group_keys_def length_cells_of)

lemma filter_take_nth:
  "i < length zs \<Longrightarrow> P (zs ! i) \<Longrightarrow>
   length (filter P (take i zs)) < length (filter P zs) \<and>
   filter P zs ! length (filter P (take i zs)) = zs ! i"
proof -
  assume i: "i < length zs" and p: "P (zs ! i)"
  have "zs = take i zs @ zs ! i # drop (Suc i) zs"
    using i by (simp add: id_take_nth_drop)
  then have "filter P zs = filter P (take i zs) @ zs ! i # filter P (drop (Suc i) zs)"
    using p by (metis filter.simps(2) filter_append)
  then show ?thesis by (simp add: nth_append)
qed

lemma length_filter_zip_fst:
  "length as = length bs \<Longrightarrow>
   length (filter (\<lambda>(a, b). P a) (zip as bs)) = length (filter P as)"
  by (induction as bs rule: list_induct2) auto

lemma group_value_at:
  assumes "length vs = length ks" "i < length ks" "ks ! i = Some key"
  shows "group_pos ks i < length (group_values ks vs key)"
    and "group_values ks vs key ! group_pos ks i = vs ! i"
proof -
  let ?P = "\<lambda>(k', v). k' = Some key"
  let ?zs = "zip ks vs"
  have i: "i < length ?zs" using assms by simp
  have p: "?P (?zs ! i)" using assms by simp
  have pos: "group_pos ks i = length (filter ?P (take i ?zs))"
    using assms by (simp add: group_pos_def take_zip length_filter_zip_fst)
  from filter_take_nth [of i ?zs ?P, OF i p]
  have lt: "length (filter ?P (take i ?zs)) < length (filter ?P ?zs)"
    and eq: "filter ?P ?zs ! length (filter ?P (take i ?zs)) = ?zs ! i" by blast+
  show "group_pos ks i < length (group_values ks vs key)"
    using lt pos by (simp add: group_values_def)
  show "group_values ks vs key ! group_pos ks i = vs ! i"
    using lt eq pos assms by (simp add: group_values_def)
qed

lemma groupby_transform_nth:
  "i < length ks \<Longrightarrow>
   groupby_transform ks vs f ! i =
     (case ks ! i of None \<Rightarrow> NaN | Some k \<Rightarrow> f (group_values ks vs k) ! group_pos ks i)"
  by (simp add: groupby_transform_def split: option.splits)

lemma length_groupby_transform: "length (groupby_transform ks vs f) = length ks"
  by (simp add: groupby_transform_def)

lemma rolling_count_nth:
  "p < length g \<Longrightarrow> rolling_count mp w g ! p = rolling_count_at mp w (take (Suc p) g)"
  by (simp add: rolling_count_def)

lemma rolling_count_at_cases:
  "rolling_count_at mp w xs = NaN \<or>
   (\<exists>c. rolling_count_at mp w xs = Fin (real c) \<and> c \<le> w \<and>
        (xs \<noteq> [] \<and> 0 < w \<and> last xs \<noteq> NaN \<longrightarrow> 1 \<le> c))"
proof (cases "length (drop (length xs - w) xs) < mp")
  case True
  then show ?thesis by (simp add: rolling_count_at_def Let_def)
next
  case False
  let ?win = "drop (length xs - w) xs"
  let ?c = "length (filter (\<lambda>x. x \<noteq> NaN) ?win)"
  have v: "rolling_count_at mp w xs = Fin (real ?c)"
    using False by (simp add: rolling_count_at_def Let_def)
  have le: "?c \<le> w"
    by (rule order_trans [OF length_filter_le]) simp
  have "1 \<le> ?c" if "xs \<noteq> []" "0 < w" "last xs \<noteq> NaN"
  proof -
    have ne: "?win \<noteq> []" using that by (cases xs) auto
    then have "last ?win = last xs" using that by simp
    then have "last xs \<in> set ?win" using ne last_in_set by metis
    then have "last xs \<in> set (filter (\<lambda>x. x \<noteq> NaN) ?win)" using that by simp
    then have "filter (\<lambda>x. x \<noteq> NaN) ?win \<noteq> []" by force
    then show ?thesis by (simp add: Suc_le_eq)
  qed
  with v le show ?thesis by blast
qed

lemma rolling_count_at_NaN:
  "rolling_count_at mp w xs = NaN \<longleftrightarrow> min (length xs) w < mp"
  by (auto simp: rolling_count_at_def Let_def min_def)

section \<open>What a successful call leaves in the table\<close>

lemma fe_success:
  "feature_engineering_df env df encoders fit = (df', Inr encs) \<longleftrightarrow>
   (\<exists>d7 cs enc vs. exec (derive_stmts env) df = (d7, None) \<and> getitems d7 cat_cols = Inr cs \<and>
      (if fit then enc = ordinal_fit cs \<and> encs = [(''ordinal_encoder'', enc)]
       else encoders = Some encs \<and> map_of encs ''ordinal_encoder'' = Some enc) \<and>
      ordinal_transform enc cs = Inr vs \<and>
      drop_columns (setitems d7 cat_cols vs) dropped_cols = Inr df')"
proof (cases fit)
  case True
  then show ?thesis
    unfolding feature_engineering_df_def stmt_encode_def
    by (cases "exec (derive_stmts env) df")
       (auto simp: ebind_def split: sum.splits option.splits prod.splits)
next
  case False
  then show ?thesis
    unfolding feature_engineering_df_def stmt_encode_def
    by (cases "exec (derive_stmts env) df")
       (auto simp: ebind_def split: sum.splits option.splits prod.splits)
qed

lemma derive_frame:
  assumes "exec (derive_stmts env) df = (d7, None)" "x \<notin> set derived_cols"
  shows "map_of d7 x = map_of df x"
proof -
  from assms(1) obtain d1 d2 d3 d4 d5 d6 where
    s: "stmt_hour env df = Inr d1" "stmt_day_of_week env d1 = Inr d2" "stmt_age env d2 = Inr d3"
       "stmt_distance d3 = Inr d4" "stmt_amt_per_capita d4 = Inr d5"
       "stmt_trans_count env d5 = Inr d6" "stmt_amt_ratio d6 = Inr d7"
    unfolding derive_chain by blast
  have "map_of d1 x = map_of df x"
    using stmt_hour_sets [OF s(1)] assms(2) by (auto simp: map_of_setitem derived_cols_def)
  moreover have "map_of d2 x = map_of d1 x"
    using stmt_day_of_week_sets [OF s(2)] assms(2) by (auto simp: map_of_setitem derived_cols_def)
  moreover have "map_of d3 x = map_of d2 x"
    using stmt_age_sets [OF s(3)] assms(2) by (auto simp: map_of_setitem derived_cols_def)
  moreover have "map_of d4 x = map_of d3 x"
    using stmt_distance_sets [OF s(4)] assms(2) by (auto simp: map_of_setitem derived_cols_def)
  moreover have "map_of d5 x = map_of d4 x"
    using s(5) assms(2) by (auto simp: stmt_amt_per_capita_Inr map_of_setitem derived_cols_def)
  moreover have "map_of d6 x = map_of d5 x"
    using s(6) assms(2) by (auto simp: stmt_trans_count_Inr map_of_setitem derived_cols_def)
  moreover have "map_of d7 x = map_of d6 x"
    using s(7) assms(2) by (auto simp: stmt_amt_ratio_Inr map_of_setitem derived_cols_def)
  ultimately show ?thesis by simp
qed

lemma derive_values:
  assumes "exec (derive_stmts env) df = (d7, None)"
  shows "\<exists>amt pop cc ut.
           map_of df ''amt'' = Some (Numeric amt) \<and> map_of df ''city_pop'' = Some (Numeric pop) \<and>
           map_of df ''cc_num'' = Some cc \<and> map_of df ''unix_time'' = Some (Numeric ut) \<and>
           map_of d7 ''amt_per_capita'' =
             Some (Numeric (map2 f_div amt (map (\<lambda>x. f_add x (Fin 1)) pop))) \<and>
           map_of d7 ''trans_count'' =
             Some (Numeric (transform_by cc ut (rolling_count (count_min_periods env) 3))) \<and>
           map_of d7 ''amt_ratio'' =
             Some (Numeric (map2 f_div amt (transform_by cc amt group_mean)))"
proof -
  from assms obtain d1 d2 d3 d4 d5 d6 where
    s: "stmt_hour env df = Inr d1" "stmt_day_of_week env d1 = Inr d2" "stmt_age env d2 = Inr d3"
       "stmt_distance d3 = Inr d4" "stmt_amt_per_capita d4 = Inr d5"
       "stmt_trans_count env d5 = Inr d6" "stmt_amt_ratio d6 = Inr d7"
    unfolding derive_chain by blast
  have raw: "map_of d4 x = map_of df x" if "x \<notin> set derived_cols" for x
    using stmt_hour_sets [OF s(1)] stmt_day_of_week_sets [OF s(2)] stmt_age_sets [OF s(3)]
      stmt_distance_sets [OF s(4)] that
    by (auto simp: map_of_setitem derived_cols_def)
  from s(5) obtain amt pop where
    a: "map_of d4 ''amt'' = Some (Numeric amt)" "map_of d4 ''city_pop'' = Some (Numeric pop)"
       "d5 = setitem d4 ''amt_per_capita'' (Numeric (map2 f_div amt (map (\<lambda>x. f_add x (Fin 1)) pop)))"
    unfolding stmt_amt_per_capita_Inr by blast
  from s(6) obtain cc ut where
    t: "map_of d5 ''cc_num'' = Some cc" "map_of d5 ''unix_time'' = Some (Numeric ut)"
       "d6 = setitem d5 ''trans_count''
               (Numeric (transform_by cc ut (rolling_count (count_min_periods env) 3)))"
    unfolding stmt_trans_count_Inr by blast
  from s(7) obtain cc' amt' where
    r: "map_of d6 ''cc_num'' = Some cc'" "map_of d6 ''amt'' = Some (Numeric amt')"
       "d7 = setitem d6 ''amt_ratio'' (Numeric (map2 f_div amt' (transform_by cc' amt' group_mean)))"
    unfolding stmt_amt_ratio_Inr by blast
  have "cc' = cc" "amt' = amt"
    using a t r by (auto simp: map_of_setitem)
  moreover have "map_of df ''amt'' = Some (Numeric amt)" "map_of df ''city_pop'' = Some (Numeric pop)"
    "map_of df ''cc_num'' = Some cc" "map_of df ''unix_time'' = Some (Numeric ut)"
    using a t raw [of "''amt''"] raw [of "''city_pop''"] raw [of "''cc_num''"] raw [of "''unix_time''"]
    by (auto simp: map_of_setitem derived_cols_def)
  ultimately show ?thesis
    using a t r by (auto simp: map_of_setitem)
qed

lemma fe_final_other:
  assumes "feature_engineering_df env df encoders fit = (df', Inr encs)"
    and "x \<notin> set dropped_cols" "x \<notin> set cat_cols"
  shows "\<exists>d7. exec (derive_stmts env) df = (d7, None) \<and> map_of df' x = map_of d7 x"
  using assms unfolding fe_success drop_columns_Inr
  by (auto simp: map_of_remove_columns map_of_setitems_other)

lemma fe_columns:
  assumes "feature_engineering_df env df encoders fit = (df', Inr encs)"
  shows "\<exists>amt pop cc ut.
           map_of df ''amt'' = Some (Numeric amt) \<and> map_of df ''city_pop'' = Some (Numeric pop) \<and>
           map_of df ''cc_num'' = Some cc \<and> map_of df ''unix_time'' = Some (Numeric ut) \<and>
           map_of df' ''amt_per_capita'' =
             Some (Numeric (map2 f_div amt (map (\<lambda>x. f_add x (Fin 1)) pop))) \<and>
           map_of df' ''trans_count'' =
             Some (Numeric (transform_by cc ut (rolling_count (count_min_periods env) 3))) \<and>
           map_of df' ''amt_ratio'' =
             Some (Numeric (map2 f_div amt (transform_by cc amt group_mean)))"
proof -
  from fe_final_other [OF assms, of "''amt_per_capita''"]
    fe_final_other [OF assms, of "''trans_count''"] fe_final_other [OF assms, of "''amt_ratio''"]
  obtain d7 where d: "exec (derive_stmts env) df = (d7, None)"
    "map_of df' ''amt_per_capita'' = map_of d7 ''amt_per_capita''"
    "map_of df' ''trans_count'' = map_of d7 ''trans_count''"
    "map_of df' ''amt_ratio'' = map_of d7 ''amt_ratio''"
    by (auto simp: dropped_cols_def cat_cols_def)
  from derive_values [OF d(1)] d(2-4) show ?thesis by simp
qed

section \<open>Runs on the reference table\<close>

lemma raw_table_lookup:
  "map_of raw_table ''trans_date'' = Some (Object [Some ''2024-01-15'', Some ''2024-01-16''])"
  "map_of raw_table ''trans_time'' = Some (Object [Some ''13:05:00'', Some ''23:59:59''])"
  "map_of raw_table ''unix_time'' = Some (Numeric [Fin 1705323900, Fin 1705449599])"
  "map_of raw_table ''category'' = Some (Object [Some ''grocery'', Some ''travel''])"
  "map_of raw_table ''amt'' = Some (Numeric [Fin 50, Fin 150])"
  "map_of raw_table ''cc_num'' = Some (Numeric [Fin 4000, Fin 4000])"
  "map_of raw_table ''first'' = Some (Object [Some ''Ann'', Some ''Ann''])"
  "map_of raw_table ''last'' = Some (Object [Some ''Lee'', Some ''Lee''])"
  "map_of raw_table ''gender'' = Some (Object [Some ''F'', Some ''F''])"
  "map_of raw_table ''street'' = Some (Object [Some ''1 Main St'', Some ''1 Main St''])"
  "map_of raw_table ''city'' = Some (Object [Some ''Boston'', Some ''Boston''])"
  "map_of raw_table ''state'' = Some (Object [Some ''MA'', Some ''MA''])"
  "map_of raw_table ''lat'' = Some (Numeric [Fin 3, Fin 3])"
  "map_of raw_table ''long'' = Some (Numeric [Fin 4, Fin 4])"
  "map_of raw_table ''city_pop'' = Some (Numeric [Fin 99, Fin 99])"
  "map_of raw_table ''job'' = Some (Object [Some ''Nurse'', Some ''Nurse''])"
  "map_of raw_table ''dob'' = Some (Object [Some ''1990-06-30'', Some ''1990-06-30''])"
  "map_of raw_table ''merchant'' = Some (Object [Some ''Acme'', Some ''Zeta''])"
  "map_of raw_table ''merch_lat'' = Some (Numeric [Fin 0, Fin 3])"
  "map_of raw_table ''merch_long'' = Some (Numeric [Fin 0, Fin 4])"
  by (simp_all add: raw_table_def)

lemmas stmt_defs = derive_stmts_def stmt_hour_def stmt_day_of_week_def stmt_age_def
  stmt_distance_def stmt_amt_per_capita_def stmt_trans_count_def stmt_amt_ratio_def
  stmt_encode_def ebind_def getitem_def getitems_def drop_columns_def cat_cols_def dropped_cols_def
  map_of_setitem

lemmas iso_defs = iso_env_def iso_hms_def iso_date_def nat_of_string_def digit_val_def

lemmas enc_defs = ordinal_fit_def ordinal_transform_def


lemma fe_raw_table:
  "snd (feature_engineering_df (iso_env clock mp) raw_table None True) = Inr raw_encoders"
  by (simp add: feature_engineering_df_def stmt_defs raw_table_lookup iso_defs enc_defs raw_encoders_def)


lemma fe_result: "snd (feature_engineering_df env df e f) = Inr encs \<Longrightarrow>
  feature_engineering_df env df e f = (fst (feature_engineering_df env df e f), Inr encs)"
  by (simp add: prod_eq_iff)

lemma fe_raw_table_numeric:
  "snd (feature_engineering_df (iso_env clock mp)
          (setitem (setitem raw_table ''amt'' (Numeric a)) ''unix_time'' (Numeric u)) None True)
     = Inr raw_encoders"
  by (simp add: feature_engineering_df_def stmt_defs raw_table_lookup iso_defs enc_defs raw_encoders_def)

lemmas group_eval = transform_by_def groupby_transform_def group_values_def group_pos_def
  group_keys_def rolling_count_def rolling_count_at_def group_mean_def mean_skipna_def
  cardholder_mean_def







lemma ordinal_transform_Inr:
  "ordinal_transform enc cols = Inr vs \<longleftrightarrow>
     length cols = length (categories enc) \<and>
     vs = map2 (\<lambda>cats col. Numeric (map (encode_cell cats) (cells_of col))) (categories enc) cols"
  by (auto simp: ordinal_transform_def)

lemma length_getitems: "getitems df cs = Inr vs \<Longrightarrow> length vs = length cs"
  by (auto simp: getitems_Inr)

lemma cat_not_derived: "c \<in> set cat_cols \<Longrightarrow> c \<notin> set derived_cols \<and> c \<notin> set dropped_cols"
  by (auto simp: cat_cols_def derived_cols_def dropped_cols_def)

lemma fe_encoded:
  assumes "feature_engineering_df env df encoders fit = (df', Inr encs)"
  shows "\<exists>cs enc. getitems df cat_cols = Inr cs \<and> map_of encs ''ordinal_encoder'' = Some enc \<and>
           (fit \<longrightarrow> encs = [(''ordinal_encoder'', ordinal_fit cs)]) \<and>
           (\<not> fit \<longrightarrow> encoders = Some encs) \<and>
           length (categories enc) = length cat_cols \<and>
           (\<forall>j < length cat_cols. map_of df' (cat_cols ! j) =
              Some (Numeric (map (encode_cell (categories enc ! j)) (cells_of (cs ! j)))))"
proof -
  from assms obtain d7 cs enc vs where
    d: "exec (derive_stmts env) df = (d7, None)" and g: "getitems d7 cat_cols = Inr cs"
    and e: "if fit then enc = ordinal_fit cs \<and> encs = [(''ordinal_encoder'', enc)]
            else encoders = Some encs \<and> map_of encs ''ordinal_encoder'' = Some enc"
    and t: "ordinal_transform enc cs = Inr vs"
    and dr: "drop_columns (setitems d7 cat_cols vs) dropped_cols = Inr df'"
    unfolding fe_success by blast
  have same: "map_of d7 c = map_of df c" if "c \<in> set cat_cols" for c
    using derive_frame [OF d] cat_not_derived [OF that] by simp
  have g0: "getitems df cat_cols = Inr cs"
    using g same by (auto simp: getitems_Inr)
  have lcs: "length cs = length cat_cols" using g by (rule length_getitems)
  from t have lv: "length cs = length (categories enc)"
    and vs: "vs = map2 (\<lambda>cats col. Numeric (map (encode_cell cats) (cells_of col))) (categories enc) cs"
    unfolding ordinal_transform_Inr by simp_all
  have lvs: "length vs = length cat_cols" using vs lv lcs by simp
  have dist: "distinct cat_cols" by (simp add: cat_cols_def)
  have "map_of df' (cat_cols ! j) = Some (Numeric (map (encode_cell (categories enc ! j)) (cells_of (cs ! j))))"
    if "j < length cat_cols" for j
  proof -
    have "cat_cols ! j \<in> set cat_cols" using that by simp
    then have nd: "cat_cols ! j \<notin> set dropped_cols" using cat_not_derived by blast
    have "map_of df' (cat_cols ! j) = map_of (setitems d7 cat_cols vs) (cat_cols ! j)"
      using dr nd by (simp add: drop_columns_Inr map_of_remove_columns)
    also have "\<dots> = Some (vs ! j)"
      using map_of_setitems_nth [OF dist lvs that] .
    also have "vs ! j = Numeric (map (encode_cell (categories enc ! j)) (cells_of (cs ! j)))"
      using that lv lcs vs by simp
    finally show ?thesis .
  qed
  moreover have "map_of encs ''ordinal_encoder'' = Some enc"
    using e by (auto split: if_splits)
  moreover have "length (categories enc) = length cat_cols" using lv lcs by simp
  ultimately show ?thesis using g0 e by (auto split: if_splits)
qed



section \<open>A table with one column removed\<close>

lemma map_of_removed: "map_of (remove_columns df [c]) x = (if x = c then None else map_of df x)"
  by (simp add: map_of_remove_columns)

lemma getitem_removed:
  "getitem (remove_columns df [c]) x = (if x = c then Inl (KeyError [c]) else getitem df x)"
  by (simp add: getitem_def map_of_removed)

lemma setitem_removed:
  "x \<noteq> c \<Longrightarrow> setitem (remove_columns df [c]) x v = remove_columns (setitem df x v) [c]"
  by (induction df) (auto simp: remove_columns_def)

lemma setitems_removed:
  "c \<notin> set cs \<Longrightarrow> setitems (remove_columns df [c]) cs vs = remove_columns (setitems df cs vs) [c]"
  by (induction df cs vs rule: setitems.induct) (auto simp: setitem_removed)

lemma remove_columns_commute:
  "remove_columns (remove_columns df [c]) cs = remove_columns (remove_columns df cs) [c]"
  by (auto simp: remove_columns_def intro: filter_cong)

lemma missing_removed:
  assumes "\<forall>x \<in> set cs. map_of df x \<noteq> None" "distinct cs"
  shows "filter (\<lambda>x. map_of (remove_columns df [c]) x = None) cs = (if c \<in> set cs then [c] else [])"
proof -
  have "filter (\<lambda>x. map_of (remove_columns df [c]) x = None) cs = filter (\<lambda>x. x = c) cs"
    using assms(1) by (intro filter_cong) (auto simp: map_of_removed)
  also have "\<dots> = (if c \<in> set cs then [c] else [])"
    using assms(2) by (induction cs) auto
  finally show ?thesis .
qed

lemma getitems_removed:
  assumes "getitems df cs = Inr vs" "distinct cs"
  shows "getitems (remove_columns df [c]) cs = (if c \<in> set cs then Inl (KeyError [c]) else Inr vs)"
proof -
  from assms(1) have p: "\<forall>x \<in> set cs. map_of df x \<noteq> None"
    and vs: "vs = map (\<lambda>c. the (map_of df c)) cs"
    by (simp_all add: getitems_Inr)
  have "map (\<lambda>x. the (map_of (remove_columns df [c]) x)) cs = vs" if "c \<notin> set cs"
    using that vs by (auto simp: map_of_removed)
  then show ?thesis
    unfolding getitems_def missing_removed [OF p assms(2)] by simp
qed

lemma drop_columns_removed:
  assumes "drop_columns df cs = Inr df'" "distinct cs"
  shows "drop_columns (remove_columns df [c]) cs =
           (if c \<in> set cs then Inl (KeyError [c]) else Inr (remove_columns df' [c]))"
proof -
  from assms(1) have p: "\<forall>x \<in> set cs. map_of df x \<noteq> None" and d: "df' = remove_columns df cs"
    by (simp_all add: drop_columns_Inr)
  show ?thesis
    unfolding drop_columns_def missing_removed [OF p assms(2)]
    by (simp add: d remove_columns_commute)
qed

lemma stmt_hour_removed:
  assumes "stmt_hour env d = Inr d'" "c \<noteq> ''hour''"
  shows "stmt_hour env (remove_columns d [c]) =
           (if c = ''trans_time'' then Inl (KeyError [c]) else Inr (remove_columns d' [c]))"
  using assms by (auto simp: stmt_hour_def ebind_def getitem_removed setitem_removed split: sum.splits)

lemma stmt_day_of_week_removed:
  assumes "stmt_day_of_week env d = Inr d'" "c \<noteq> ''day_of_week''"
  shows "stmt_day_of_week env (remove_columns d [c]) =
           (if c = ''trans_date'' then Inl (KeyError [c]) else Inr (remove_columns d' [c]))"
  using assms
  by (auto simp: stmt_day_of_week_def ebind_def getitem_removed setitem_removed split: sum.splits)

lemma stmt_age_removed:
  assumes "stmt_age env d = Inr d'" "c \<noteq> ''age''"
  shows "stmt_age env (remove_columns d [c]) =
           (if c = ''dob'' then Inl (KeyError [c]) else Inr (remove_columns d' [c]))"
  using assms by (auto simp: stmt_age_def ebind_def getitem_removed setitem_removed split: sum.splits)

lemma stmt_distance_Inr:
  "stmt_distance d = Inr d' \<longleftrightarrow>
     (\<exists>a b p q. map_of d ''lat'' = Some (Numeric a) \<and> map_of d ''merch_lat'' = Some (Numeric b) \<and>
        map_of d ''long'' = Some (Numeric p) \<and> map_of d ''merch_long'' = Some (Numeric q) \<and>
        d' = setitem d ''distance''
               (Numeric (map f_sqrt (map2 f_add (map f_sq (map2 f_sub a b)) (map f_sq (map2 f_sub p q))))))"
  by (auto simp: stmt_distance_def ebind_Inr getitem_Inr series_sub_Inr)

lemma stmt_distance_removed:
  assumes "stmt_distance d = Inr d'" "c \<noteq> ''distance''"
  shows "stmt_distance (remove_columns d [c]) =
           (if c \<in> {''lat'', ''merch_lat'', ''long'', ''merch_long''} then Inl (KeyError [c])
            else Inr (remove_columns d' [c]))"
proof -
  from assms(1) obtain a b p q where
    f: "map_of d ''lat'' = Some (Numeric a)" "map_of d ''merch_lat'' = Some (Numeric b)"
       "map_of d ''long'' = Some (Numeric p)" "map_of d ''merch_long'' = Some (Numeric q)"
       "d' = setitem d ''distance''
               (Numeric (map f_sqrt (map2 f_add (map f_sq (map2 f_sub a b)) (map f_sq (map2 f_sub p q)))))"
    unfolding stmt_distance_Inr by blast
  show ?thesis
    using assms(2) f
    by (simp add: stmt_distance_def ebind_def getitem_def map_of_removed setitem_removed)
qed

lemma stmt_amt_per_capita_removed:
  assumes "stmt_amt_per_capita d = Inr d'" "c \<noteq> ''amt_per_capita''"
  shows "stmt_amt_per_capita (remove_columns d [c]) =
           (if c \<in> {''amt'', ''city_pop''} then Inl (KeyError [c]) else Inr (remove_columns d' [c]))"
proof -
  from assms(1) obtain amt pop where
    f: "map_of d ''amt'' = Some (Numeric amt)" "map_of d ''city_pop'' = Some (Numeric pop)"
       "d' = setitem d ''amt_per_capita'' (Numeric (map2 f_div amt (map (\<lambda>x. f_add x (Fin 1)) pop)))"
    unfolding stmt_amt_per_capita_Inr by blast
  show ?thesis
    using assms(2) f
    by (simp add: stmt_amt_per_capita_def ebind_def getitem_def map_of_removed setitem_removed)
qed

lemma stmt_trans_count_removed:
  assumes "stmt_trans_count env d = Inr d'" "c \<noteq> ''trans_count''"
  shows "stmt_trans_count env (remove_columns d [c]) =
           (if c \<in> {''cc_num'', ''unix_time''} then Inl (KeyError [c]) else Inr (remove_columns d' [c]))"
proof -
  from assms(1) obtain cc ut where
    f: "map_of d ''cc_num'' = Some cc" "map_of d ''unix_time'' = Some (Numeric ut)"
       "d' = setitem d ''trans_count''
               (Numeric (transform_by cc ut (rolling_count (count_min_periods env) 3)))"
    unfolding stmt_trans_count_Inr by blast
  show ?thesis
    using assms(2) f
    by (simp add: stmt_trans_count_def ebind_def getitem_def map_of_removed setitem_removed)
qed

lemma stmt_amt_ratio_removed:
  assumes "stmt_amt_ratio d = Inr d'" "c \<noteq> ''amt_ratio''"
  shows "stmt_amt_ratio (remove_columns d [c]) =
           (if c \<in> {''amt'', ''cc_num''} then Inl (KeyError [c]) else Inr (remove_columns d' [c]))"
proof -
  from assms(1) obtain cc amt where
    f: "map_of d ''cc_num'' = Some cc" "map_of d ''amt'' = Some (Numeric amt)"
       "d' = setitem d ''amt_ratio'' (Numeric (map2 f_div amt (transform_by cc amt group_mean)))"
    unfolding stmt_amt_ratio_Inr by blast
  show ?thesis
    using assms(2) f
    by (simp add: stmt_amt_ratio_def ebind_def getitem_def map_of_removed setitem_removed)
qed

lemma exec_Cons_if:
  "s d = (if P then Inl e else Inr d') \<Longrightarrow>
   exec (s # ss) d = (if P then (d, Some e) else exec ss d')"
  by simp

lemma derive_removed:
  assumes "exec (derive_stmts env) df = (d7, None)" and "c \<notin> set derived_cols"
  shows "if c \<in> {''trans_time'', ''trans_date'', ''dob'', ''lat'', ''merch_lat'', ''long'',
                  ''merch_long'', ''amt'', ''city_pop'', ''cc_num'', ''unix_time''}
         then \<exists>d. exec (derive_stmts env) (remove_columns df [c]) = (d, Some (KeyError [c]))
         else exec (derive_stmts env) (remove_columns df [c]) = (remove_columns d7 [c], None)"
proof -
  from assms(1) obtain d1 d2 d3 d4 d5 d6 where
    s: "stmt_hour env df = Inr d1" "stmt_day_of_week env d1 = Inr d2" "stmt_age env d2 = Inr d3"
       "stmt_distance d3 = Inr d4" "stmt_amt_per_capita d4 = Inr d5"
       "stmt_trans_count env d5 = Inr d6" "stmt_amt_ratio d6 = Inr d7"
    unfolding derive_chain by blast
  from assms(2) have n: "c \<noteq> ''hour''" "c \<noteq> ''day_of_week''" "c \<noteq> ''age''" "c \<noteq> ''distance''"
    "c \<noteq> ''amt_per_capita''" "c \<noteq> ''trans_count''" "c \<noteq> ''amt_ratio''"
    by (auto simp: derived_cols_def)
  let ?R = "\<lambda>d. remove_columns d [c]"
  note e1 = exec_Cons_if [where s = "stmt_hour env" and d = "remove_columns df [c]", OF stmt_hour_removed [OF s(1) n(1)]]
  note e2 = exec_Cons_if [where s = "stmt_day_of_week env" and d = "remove_columns d1 [c]", OF stmt_day_of_week_removed [OF s(2) n(2)]]
  note e3 = exec_Cons_if [where s = "stmt_age env" and d = "remove_columns d2 [c]", OF stmt_age_removed [OF s(3) n(3)]]
  note e4 = exec_Cons_if [where s = "stmt_distance" and d = "remove_columns d3 [c]", OF stmt_distance_removed [OF s(4) n(4)]]
  note e5 = exec_Cons_if [where s = "stmt_amt_per_capita" and d = "remove_columns d4 [c]", OF stmt_amt_per_capita_removed [OF s(5) n(5)]]
  note e6 = exec_Cons_if [where s = "stmt_trans_count env" and d = "remove_columns d5 [c]", OF stmt_trans_count_removed [OF s(6) n(6)]]
  note e7 = exec_Cons_if [where s = "stmt_amt_ratio" and d = "remove_columns d6 [c]", OF stmt_amt_ratio_removed [OF s(7) n(7)]]
  have "exec (derive_stmts env) (?R df) =
     (if c = ''trans_time'' then (?R df, Some (KeyError [c]))
      else if c = ''trans_date'' then (?R d1, Some (KeyError [c]))
      else if c = ''dob'' then (?R d2, Some (KeyError [c]))
      else if c \<in> {''lat'', ''merch_lat'', ''long'', ''merch_long''} then (?R d3, Some (KeyError [c]))
      else if c \<in> {''amt'', ''city_pop''} then (?R d4, Some (KeyError [c]))
      else if c \<in> {''cc_num'', ''unix_time''} then (?R d5, Some (KeyError [c]))
      else if c \<in> {''amt'', ''cc_num''} then (?R d6, Some (KeyError [c]))
      else (?R d7, None))"
    by (simp only: derive_stmts_def e1 e2 e3 e4 e5 e6 e7 exec.simps(1))
  then show ?thesis
    by (simp split: if_splits)
qed

lemma expected_not_derived: "c \<in> set expected_cols \<Longrightarrow> c \<notin> set derived_cols"
  by (auto simp: expected_cols_def derived_cols_def)

lemma fe_removed:
  assumes ok: "feature_engineering_df env df encoders fit = (df', Inr encs)"
    and c: "c \<in> set expected_cols"
  shows "\<exists>d. feature_engineering_df env (remove_columns df [c]) encoders fit = (d, Inl (KeyError [c]))"
proof -
  from ok obtain d7 cs enc vs where
    d: "exec (derive_stmts env) df = (d7, None)" and g: "getitems d7 cat_cols = Inr cs"
    and e: "if fit then enc = ordinal_fit cs \<and> encs = [(''ordinal_encoder'', enc)]
            else encoders = Some encs \<and> map_of encs ''ordinal_encoder'' = Some enc"
    and t: "ordinal_transform enc cs = Inr vs"
    and dr: "drop_columns (setitems d7 cat_cols vs) dropped_cols = Inr df'"
    unfolding fe_success by blast
  note dv = derive_removed [OF d expected_not_derived [OF c]]
  let ?reads = "{''trans_time'', ''trans_date'', ''dob'', ''lat'', ''merch_lat'', ''long'',
                  ''merch_long'', ''amt'', ''city_pop'', ''cc_num'', ''unix_time''}"
  show ?thesis
  proof (cases "c \<in> ?reads")
    case True
    with dv obtain d0 where "exec (derive_stmts env) (remove_columns df [c]) = (d0, Some (KeyError [c]))"
      by auto
    then show ?thesis by (simp add: feature_engineering_df_def)
  next
    case False
    with dv have x: "exec (derive_stmts env) (remove_columns df [c]) = (remove_columns d7 [c], None)"
      by simp
    have dc: "distinct cat_cols" "distinct dropped_cols"
      by (simp_all add: cat_cols_def dropped_cols_def)
    note gi = getitems_removed [OF g dc(1), of c]
    show ?thesis
    proof (cases "c \<in> set cat_cols")
      case True
      with gi have "getitems (remove_columns d7 [c]) cat_cols = Inl (KeyError [c])" by simp
      then have "stmt_encode encoders fit (remove_columns d7 [c]) = Inl (KeyError [c])"
        using e by (auto simp: stmt_encode_def ebind_def split: if_splits)
      with x show ?thesis by (simp add: feature_engineering_df_def)
    next
      case nc: False
      with gi have gi': "getitems (remove_columns d7 [c]) cat_cols = Inr cs" by simp
      have enc: "stmt_encode encoders fit (remove_columns d7 [c]) =
          Inr (remove_columns (setitems d7 cat_cols vs) [c], encs)"
        using e t gi' nc
        by (auto simp: stmt_encode_def ebind_def setitems_removed split: if_splits)
      from c False nc have "c \<in> set dropped_cols"
        by (auto simp: expected_cols_def cat_cols_def dropped_cols_def)
      with drop_columns_removed [OF dr dc(2), of c]
      have "drop_columns (remove_columns (setitems d7 cat_cols vs) [c]) dropped_cols = Inl (KeyError [c])"
        by simp
      with x enc show ?thesis by (simp add: feature_engineering_df_def)
    qed
  qed
qed

lemma fe_raw_table_applied:
  "snd (feature_engineering_df (iso_env clock mp) raw_table (Some raw_encoders) False) = Inr raw_encoders"
  by (simp add: feature_engineering_df_def stmt_defs raw_table_lookup iso_defs enc_defs raw_encoders_def)

lemma in_columns: "c \<in> set (columns df) \<longleftrightarrow> map_of df c \<noteq> None"
  by (simp add: columns_def map_of_eq_None_iff)

lemma derive_present:
  assumes "exec (derive_stmts env) df = (d7, None)" "c \<in> set derived_cols"
  shows "map_of d7 c \<noteq> None"
proof -
  from assms(1) obtain d1 d2 d3 d4 d5 d6 where
    s: "stmt_hour env df = Inr d1" "stmt_day_of_week env d1 = Inr d2" "stmt_age env d2 = Inr d3"
       "stmt_distance d3 = Inr d4" "stmt_amt_per_capita d4 = Inr d5"
       "stmt_trans_count env d5 = Inr d6" "stmt_amt_ratio d6 = Inr d7"
    unfolding derive_chain by blast
  from stmt_hour_sets [OF s(1)] stmt_day_of_week_sets [OF s(2)] stmt_age_sets [OF s(3)]
    stmt_distance_sets [OF s(4)] s(5,6,7) assms(2)
  show ?thesis
    by (auto simp: stmt_amt_per_capita_Inr stmt_trans_count_Inr stmt_amt_ratio_Inr
        map_of_setitem derived_cols_def)
qed

lemma fe_df_changes:
  assumes "feature_engineering_df env df encoders fit = (df', Inr encs)"
  shows "df' \<noteq> df" and "set dropped_cols \<subseteq> set (columns df)"
    and "set dropped_cols \<inter> set (columns df') = {}" and "set derived_cols \<subseteq> set (columns df')"
    and "\<not> fit \<Longrightarrow> encoders = Some encs"
proof -
  from assms obtain d7 cs enc vs where
    d: "exec (derive_stmts env) df = (d7, None)"
    and e: "if fit then enc = ordinal_fit cs \<and> encs = [(''ordinal_encoder'', enc)]
            else encoders = Some encs \<and> map_of encs ''ordinal_encoder'' = Some enc"
    and dr: "drop_columns (setitems d7 cat_cols vs) dropped_cols = Inr df'"
    unfolding fe_success by blast
  from dr have p: "\<forall>c \<in> set dropped_cols. map_of (setitems d7 cat_cols vs) c \<noteq> None"
    and df': "df' = remove_columns (setitems d7 cat_cols vs) dropped_cols"
    by (simp_all add: drop_columns_Inr)
  have nd: "c \<notin> set cat_cols \<and> c \<notin> set derived_cols" if "c \<in> set dropped_cols" for c
    using that by (auto simp: dropped_cols_def cat_cols_def derived_cols_def)
  show a: "set dropped_cols \<subseteq> set (columns df)"
  proof
    fix c assume c: "c \<in> set dropped_cols"
    with p have "map_of (setitems d7 cat_cols vs) c \<noteq> None" by blast
    then have "map_of d7 c \<noteq> None" using nd [OF c] by (simp add: map_of_setitems_other)
    then have "map_of df c \<noteq> None" using derive_frame [OF d] nd [OF c] by simp
    then show "c \<in> set (columns df)" by (simp add: in_columns)
  qed
  show b: "set dropped_cols \<inter> set (columns df') = {}"
    by (auto simp: in_columns df' map_of_remove_columns)
  show "set derived_cols \<subseteq> set (columns df')"
  proof
    fix c assume c: "c \<in> set derived_cols"
    then have n: "c \<notin> set dropped_cols" "c \<notin> set cat_cols"
      by (auto simp: dropped_cols_def cat_cols_def derived_cols_def)
    have "map_of df' c = map_of d7 c"
      using n by (simp add: df' map_of_remove_columns map_of_setitems_other)
    with derive_present [OF d c] show "c \<in> set (columns df')" by (simp add: in_columns)
  qed
  have "''street'' \<in> set dropped_cols" by (simp add: dropped_cols_def)
  with a b show "df' \<noteq> df" by blast
  show "encoders = Some encs" if "\<not> fit" using e that by simp
qed

section \<open>The submission table\<close>

lemma wf_frame_col_len:
  assumes "wf_frame df" "map_of df c = Some v"
  shows "col_len v = nrows df"
proof -
  from assms(2) have "(c, v) \<in> set df" by (rule map_of_SomeD)
  with assms(1) show ?thesis by (auto simp: wf_frame_def list_all_iff)
qed

lemma select_columns_Inr:
  "select_columns df cs = Inr sub \<longleftrightarrow>
     (\<forall>c \<in> set cs. map_of df c \<noteq> None) \<and> sub = map (\<lambda>c. (c, the (map_of df c))) cs"
  by (auto simp: select_columns_def filter_empty_conv split: list.splits)

lemma to_csv_two:
  "to_csv [(a, u), (b, v)] =
     ([a, b], map (\<lambda>i. [cells_of u ! i, cells_of v ! i]) [0..<col_len u])"
  by (simp add: to_csv_def nrows_def)

section \<open>The steps of a run\<close>

lemma pipeline_Inr:
  assumes "pipeline env ml train test = Inr r"
  shows "\<exists>train1 encoders test1 unused X y Xt Xs ys Xtr Xva ytr yva cols scaler predict test2.
      feature_engineering_df env train None True = (train1, Inr encoders) \<and>
      feature_engineering_df env test (Some encoders) False = (test1, Inr unused) \<and>
      drop_columns train1 [''is_fraud'', ''trans_num'', ''id''] = Inr X \<and>
      getitem train1 ''is_fraud'' = Inr y \<and>
      drop_columns test1 [''trans_num'', ''id''] = Inr Xt \<and>
      smote_fit_resample ml 42 X y = Inr (Xs, ys) \<and>
      train_test_split ml 42 Xs ys = Inr (Xtr, Xva, ytr, yva) \<and>
      getitems Xtr numeric_features = Inr cols \<and>
      scaler_fit cols = Inr scaler \<and>
      scale_numeric scaler Xtr = Inr (r_X_train r) \<and>
      scale_numeric scaler Xva = Inr (r_X_val r) \<and>
      scale_numeric scaler Xt = Inr (r_X_test_submission r) \<and>
      gbc_fit ml 42 (r_X_train r) ytr = Inr predict \<and>
      predict (r_X_val r) = Inr (r_y_pred r) \<and>
      submission predict (r_X_test_submission r) test1 = Inr (test2, r_submission r, r_csv r) \<and>
      r_train r = train1 \<and> r_test r = test2 \<and> r_encoders r = encoders \<and> r_scaler r = scaler \<and>
      r_y_train r = ytr \<and> r_y_val r = yva"
  using assms unfolding pipeline_def
  by (clarsimp split: prod.splits sum.splits simp: ebind_Inr)

section \<open>A run on the reference tables\<close>

lemma first_column_setitem:
  "first_column (setitem df c v) =
     (case first_column df of None \<Rightarrow> Some (c, v)
      | Some (a, b) \<Rightarrow> if a = c then Some (c, v) else Some (a, b))"
  by (cases df) (auto simp: first_column_def)

lemma first_column_remove_columns:
  "first_column (remove_columns df cs) =
     (case first_column df of None \<Rightarrow> None
      | Some (a, b) \<Rightarrow> if a \<in> set cs then first_column (remove_columns (tl df) cs) else Some (a, b))"
  by (cases df) (auto simp: first_column_def remove_columns_def)

lemma nrows_first_column:
  "nrows df = (case first_column df of None \<Rightarrow> 0 | Some (a, b) \<Rightarrow> col_len b)"
  by (cases df) (auto simp: first_column_def nrows_def)

lemma not_Nil_first_column: "df \<noteq> [] \<longleftrightarrow> first_column df \<noteq> None"
  by (cases df) (auto simp: first_column_def)

lemma raw_table_first: "first_column raw_table = Some (''id'', Numeric [Fin 1, Fin 2])"
  by (simp add: raw_table_def first_column_def)

lemma raw_table_ids:
  "map_of raw_table ''id'' = Some (Numeric [Fin 1, Fin 2])"
  "map_of raw_table ''trans_num'' = Some (Object [Some ''a1'', Some ''b2''])"
  "map_of raw_table ''is_fraud'' = None"
  by (simp_all add: raw_table_def)

lemmas frame_eval = map_of_remove_columns nrows_first_column not_Nil_first_column
  first_column_setitem first_column_remove_columns raw_table_first raw_table_ids

lemmas derived_eval = dt_field_def f_sub_def transform_by_def groupby_transform_def
  group_values_def group_pos_def group_keys_def rolling_count_def rolling_count_at_def
  group_mean_def mean_skipna_def

lemma fe_train_table:
  "\<exists>T. feature_engineering_df (iso_env clock mp) train_table None True = (T, Inr raw_encoders) \<and>
     T \<noteq> [] \<and> nrows T = 2 \<and>
     map_of T ''id'' = Some (Numeric [Fin 1, Fin 2]) \<and>
     map_of T ''trans_num'' = Some (Object [Some ''a1'', Some ''b2'']) \<and>
     map_of T ''is_fraud'' = Some (Numeric [Fin 0, Fin 1]) \<and>
     map_of T ''amt'' = Some (Numeric [Fin 50, Fin 150]) \<and>
     map_of T ''lat'' = Some (Numeric [Fin 3, Fin 3]) \<and>
     map_of T ''long'' = Some (Numeric [Fin 4, Fin 4]) \<and>
     map_of T ''merch_lat'' = Some (Numeric [Fin 0, Fin 3]) \<and>
     map_of T ''merch_long'' = Some (Numeric [Fin 0, Fin 4]) \<and>
     map_of T ''city_pop'' = Some (Numeric [Fin 99, Fin 99]) \<and>
     map_of T ''amt_per_capita'' = Some (Numeric [Fin (1 / 2), Fin (3 / 2)]) \<and>
     map_of T ''age'' = Some (Numeric [Fin (real_of_int (ts_year clock - 1990)),
                                       Fin (real_of_int (ts_year clock - 1990))]) \<and>
     map_of T ''hour'' = Some (Numeric [Fin 13, Fin 23]) \<and>
     map_of T ''distance'' = Some (Numeric [Fin 5, Fin 0])"
  by (simp add: feature_engineering_df_def stmt_defs raw_table_lookup iso_defs enc_defs
      raw_encoders_def train_table_def frame_eval derived_eval)

lemma fe_test_table:
  "\<exists>T. feature_engineering_df (iso_env clock mp) raw_table (Some raw_encoders) False
         = (T, Inr raw_encoders) \<and>
     T \<noteq> [] \<and> nrows T = 2 \<and>
     map_of T ''id'' = Some (Numeric [Fin 1, Fin 2]) \<and>
     map_of T ''trans_num'' = Some (Object [Some ''a1'', Some ''b2'']) \<and>
     map_of T ''amt'' = Some (Numeric [Fin 50, Fin 150]) \<and>
     map_of T ''lat'' = Some (Numeric [Fin 3, Fin 3]) \<and>
     map_of T ''long'' = Some (Numeric [Fin 4, Fin 4]) \<and>
     map_of T ''merch_lat'' = Some (Numeric [Fin 0, Fin 3]) \<and>
     map_of T ''merch_long'' = Some (Numeric [Fin 0, Fin 4]) \<and>
     map_of T ''city_pop'' = Some (Numeric [Fin 99, Fin 99]) \<and>
     map_of T ''amt_per_capita'' = Some (Numeric [Fin (1 / 2), Fin (3 / 2)]) \<and>
     map_of T ''age'' = Some (Numeric [Fin (real_of_int (ts_year clock - 1990)),
                                       Fin (real_of_int (ts_year clock - 1990))]) \<and>
     map_of T ''hour'' = Some (Numeric [Fin 13, Fin 23]) \<and>
     map_of T ''distance'' = Some (Numeric [Fin 5, Fin 0])"
  by (simp add: feature_engineering_df_def stmt_defs raw_table_lookup iso_defs enc_defs
      raw_encoders_def frame_eval derived_eval)

lemma pipeline_runs:
  "\<exists>r. pipeline (iso_env clock mp) stump_ml train_table raw_table = Inr r"
proof -
  from fe_train_table [of clock mp] obtain T1 where
    f1: "feature_engineering_df (iso_env clock mp) train_table None True = (T1, Inr raw_encoders)"
    and t1: "T1 \<noteq> []" "nrows T1 = 2"
      "map_of T1 ''id'' = Some (Numeric [Fin 1, Fin 2])"
      "map_of T1 ''trans_num'' = Some (Object [Some ''a1'', Some ''b2''])"
      "map_of T1 ''is_fraud'' = Some (Numeric [Fin 0, Fin 1])"
      "map_of T1 ''amt'' = Some (Numeric [Fin 50, Fin 150])"
      "map_of T1 ''lat'' = Some (Numeric [Fin 3, Fin 3])"
      "map_of T1 ''long'' = Some (Numeric [Fin 4, Fin 4])"
      "map_of T1 ''merch_lat'' = Some (Numeric [Fin 0, Fin 3])"
      "map_of T1 ''merch_long'' = Some (Numeric [Fin 0, Fin 4])"
      "map_of T1 ''city_pop'' = Some (Numeric [Fin 99, Fin 99])"
      "map_of T1 ''amt_per_capita'' = Some (Numeric [Fin (1 / 2), Fin (3 / 2)])"
      "map_of T1 ''age'' = Some (Numeric [Fin (real_of_int (ts_year clock - 1990)),
                                       Fin (real_of_int (ts_year clock - 1990))])"
      "map_of T1 ''hour'' = Some (Numeric [Fin 13, Fin 23])"
      "map_of T1 ''distance'' = Some (Numeric [Fin 5, Fin 0])"
    by blast
  from fe_test_table [of clock mp] obtain T2 where
    f2: "feature_engineering_df (iso_env clock mp) raw_table (Some raw_encoders) False
           = (T2, Inr raw_encoders)"
    and t2: "T2 \<noteq> []" "nrows T2 = 2"
      "map_of T2 ''id'' = Some (Numeric [Fin 1, Fin 2])"
      "map_of T2 ''trans_num'' = Some (Object [Some ''a1'', Some ''b2''])"
      "map_of T2 ''amt'' = Some (Numeric [Fin 50, Fin 150])"
      "map_of T2 ''lat'' = Some (Numeric [Fin 3, Fin 3])"
      "map_of T2 ''long'' = Some (Numeric [Fin 4, Fin 4])"
      "map_of T2 ''merch_lat'' = Some (Numeric [Fin 0, Fin 3])"
      "map_of T2 ''merch_long'' = Some (Numeric [Fin 0, Fin 4])"
      "map_of T2 ''city_pop'' = Some (Numeric [Fin 99, Fin 99])"
      "map_of T2 ''amt_per_capita'' = Some (Numeric [Fin (1 / 2), Fin (3 / 2)])"
      "map_of T2 ''age'' = Some (Numeric [Fin (real_of_int (ts_year clock - 1990)),
                                       Fin (real_of_int (ts_year clock - 1990))])"
      "map_of T2 ''hour'' = Some (Numeric [Fin 13, Fin 23])"
      "map_of T2 ''distance'' = Some (Numeric [Fin 5, Fin 0])"
    by blast
  show ?thesis
    apply (simp only: pipeline_def f1 prod.case sum.case f2)
    by (simp add: t1 t2 ebind_def drop_columns_def getitem_def getitems_def stump_ml_def
        numeric_features_def scale_numeric_def scaler_fit_def scaler_transform_def col_scale_def
        mean_skipna_def f_sub_def map_of_remove_columns map_of_setitem submission_def
        setitem_array_def select_columns_def Let_def)
qed

section \<open>The clock\<close>

lemma to_datetime_format_now: "to_datetime_format (env\<lparr>now := t\<rparr>) c = to_datetime_format env c"
  by (cases c) simp_all

lemma to_datetime_now: "to_datetime (env\<lparr>now := t\<rparr>) c = to_datetime env c"
  by (cases c) simp_all

lemma stmt_trans_count_now: "stmt_trans_count (env\<lparr>now := t\<rparr>) = stmt_trans_count env"
  by (rule ext) (auto simp: stmt_trans_count_def ebind_def split: sum.splits column.splits)

lemma derive_stmts_now:
  "ts_year t = ts_year (now env) \<Longrightarrow> derive_stmts (env\<lparr>now := t\<rparr>) = derive_stmts env"
  by (simp add: derive_stmts_def fun_eq_iff stmt_hour_def stmt_day_of_week_def stmt_age_def
      stmt_trans_count_now to_datetime_format_now to_datetime_now)

lemma feature_engineering_df_now:
  "ts_year t = ts_year (now env) \<Longrightarrow>
   feature_engineering_df (env\<lparr>now := t\<rparr>) = feature_engineering_df env"
  by (intro ext) (simp add: feature_engineering_df_def derive_stmts_now)

section \<open>The class balancer on a skewed table\<close>





lemma skewed_facts:
  "binary_labels skewed_y" "col_len skewed_y = nrows skewed_X" "wf_frame skewed_X"
  "collect (map (\<lambda>(n, c). finite_values c) skewed_X)
     = Inr [[1, 2, 3, 4, 5, 6, 7, 10, 20, 30, 40, 50]]"
  "label_count 0 skewed_y = 7" "label_count 1 skewed_y = 5"
  by (simp_all add: skewed_X_def skewed_y_def binary_labels_def nrows_def wf_frame_def
      ebind_def label_count_def)

lemma upt12: "[0..<12] = [0, 1, 2, 3, 4, 5, 6, 7, 8, 9, 10, 11]"
  by (simp add: upt_rec)

lemma minority_rows:
  "map (row_at [[1, 2, 3, 4, 5, 6, 7, 10, 20, 30, 40, 50]])
     (filter (\<lambda>i. cells_of skewed_y ! i = Number (Fin 1)) [0..<12])
   = [[10], [20], [30], [40], [50]]"
  by (simp add: upt12 skewed_y_def row_at_def)

lemma neighbours0: "neighbours [[10], [20], [30], [40], [50]] 0 = [[20], [30], [40], [50]]"
  by (simp add: neighbours_def dist2_def smote_k_def)

lemma neighbours1: "neighbours [[10], [20], [30], [40], [50]] (Suc 0) = [[10], [30], [40], [50]]"
  by (simp add: neighbours_def dist2_def smote_k_def)

lemma synth:
  "map (synthesise (midpoint_rng 42) [[10], [20], [30], [40], [50]]) [0..<2] = [[15], [25]]"
  by (simp add: upt_rec synthesise_def midpoint_rng_def neighbours0 neighbours1 interpolate_def Let_def)


lemma smote_example:
  "smote_spec midpoint_rng 42 skewed_X skewed_y =
     Inr ([(''amt'', Numeric [Fin 1, Fin 2, Fin 3, Fin 4, Fin 5, Fin 6, Fin 7,
                              Fin 10, Fin 20, Fin 30, Fin 40, Fin 50, Fin 15, Fin 25])],
          Numeric [Fin 0, Fin 0, Fin 0, Fin 0, Fin 0, Fin 0, Fin 0,
                   Fin 1, Fin 1, Fin 1, Fin 1, Fin 1, Fin 1, Fin 1])"
proof -
  have n: "nrows skewed_X = 12" by (simp add: skewed_X_def nrows_def)
  have two: "max (7::nat) 5 - min 7 5 = 2" by simp
  have a: "append_rows skewed_X [[15], [25]] =
      [(''amt'', Numeric [Fin 1, Fin 2, Fin 3, Fin 4, Fin 5, Fin 6, Fin 7,
                          Fin 10, Fin 20, Fin 30, Fin 40, Fin 50, Fin 15, Fin 25])]"
    by (simp add: append_rows_def skewed_X_def)
  have y: "(case skewed_y of Numeric ys \<Rightarrow> ys | Object ys \<Rightarrow> []) @ replicate 2 (Fin 1)
      = [Fin 0, Fin 0, Fin 0, Fin 0, Fin 0, Fin 0, Fin 0,
         Fin 1, Fin 1, Fin 1, Fin 1, Fin 1, Fin 1, Fin 1]"
    by (simp add: skewed_y_def numeral_2_eq_2)
  show ?thesis
    by (simp add: smote_spec_def skewed_facts n ebind_def Let_def smote_k_def two
        minority_rows synth a y)
qed

section \<open>Claims\<close>

subsection \<open>C1: fitting and applying\<close>

text \<open>
  C1. In every run that completes, the encoders are the ones fitted on the six
  categorical columns of the raw training table; the call on the test table receives
  them and returns them as they are; the scaler is the one fitted on the numeric columns
  of the training subset that the split returns, and that same scaler transforms the
  training subset, the validation subset and the test features. Neither artifact
  depends on the test table: a run on the same training table and any other test table
  has the same encoders and the same scaler.
\<close>

theorem fitted_on_training_only:
  assumes "pipeline env ml train test = Inr r"
  shows "(\<exists>cs. getitems train cat_cols = Inr cs \<and>
              r_encoders r = [(''ordinal_encoder'', ordinal_fit cs)]) \<and>
         (\<exists>X y Xs ys Xtr Xva ytr yva cols.
            drop_columns (r_train r) [''is_fraud'', ''trans_num'', ''id''] = Inr X \<and>
            getitem (r_train r) ''is_fraud'' = Inr y \<and>
            smote_fit_resample ml 42 X y = Inr (Xs, ys) \<and>
            train_test_split ml 42 Xs ys = Inr (Xtr, Xva, ytr, yva) \<and>
            getitems Xtr numeric_features = Inr cols \<and>
            scaler_fit cols = Inr (r_scaler r) \<and>
            scale_numeric (r_scaler r) Xtr = Inr (r_X_train r) \<and>
            scale_numeric (r_scaler r) Xva = Inr (r_X_val r)) \<and>
         (\<exists>test1 Xt.
            feature_engineering_df env test (Some (r_encoders r)) False
              = (test1, Inr (r_encoders r)) \<and>
            drop_columns test1 [''trans_num'', ''id''] = Inr Xt \<and>
            scale_numeric (r_scaler r) Xt = Inr (r_X_test_submission r)) \<and>
         (\<forall>test' r'. pipeline env ml train test' = Inr r' \<longrightarrow>
            r_encoders r' = r_encoders r \<and> r_scaler r' = r_scaler r)"
proof -
  from pipeline_Inr [OF assms] obtain train1 encoders test1 unused X y Xt Xs ys Xtr Xva ytr yva
      cols scaler where
    f1: "feature_engineering_df env train None True = (train1, Inr encoders)"
    and f2: "feature_engineering_df env test (Some encoders) False = (test1, Inr unused)"
    and x: "drop_columns train1 [''is_fraud'', ''trans_num'', ''id''] = Inr X"
    and y: "getitem train1 ''is_fraud'' = Inr y"
    and xt: "drop_columns test1 [''trans_num'', ''id''] = Inr Xt"
    and sm: "smote_fit_resample ml 42 X y = Inr (Xs, ys)"
    and sp: "train_test_split ml 42 Xs ys = Inr (Xtr, Xva, ytr, yva)"
    and c: "getitems Xtr numeric_features = Inr cols"
    and sf: "scaler_fit cols = Inr scaler"
    and s1: "scale_numeric scaler Xtr = Inr (r_X_train r)"
    and s2: "scale_numeric scaler Xva = Inr (r_X_val r)"
    and s3: "scale_numeric scaler Xt = Inr (r_X_test_submission r)"
    and r: "r_train r = train1" "r_encoders r = encoders" "r_scaler r = scaler"
    by blast
  from fe_encoded [OF f1] obtain cs where
    cs: "getitems train cat_cols = Inr cs" "encoders = [(''ordinal_encoder'', ordinal_fit cs)]"
    by auto
  from fe_df_changes(5) [OF f2] have u: "unused = encoders" by simp
  have indep: "r_encoders r' = r_encoders r \<and> r_scaler r' = r_scaler r"
    if "pipeline env ml train test' = Inr r'" for test' r'
  proof -
    from pipeline_Inr [OF that] obtain train1' encoders' X' y' Xs' ys' Xtr' Xva' ytr' yva'
        cols' scaler' where
      g1: "feature_engineering_df env train None True = (train1', Inr encoders')"
      and x': "drop_columns train1' [''is_fraud'', ''trans_num'', ''id''] = Inr X'"
      and y': "getitem train1' ''is_fraud'' = Inr y'"
      and sm': "smote_fit_resample ml 42 X' y' = Inr (Xs', ys')"
      and sp': "train_test_split ml 42 Xs' ys' = Inr (Xtr', Xva', ytr', yva')"
      and c': "getitems Xtr' numeric_features = Inr cols'"
      and sf': "scaler_fit cols' = Inr scaler'"
      and r': "r_encoders r' = encoders'" "r_scaler r' = scaler'"
      by blast
    from f1 g1 have "train1' = train1" "encoders' = encoders" by simp_all
    with x x' y y' have "X' = X" "y' = y" by simp_all
    with sm sm' have "Xs' = Xs" "ys' = ys" by simp_all
    with sp sp' have "Xtr' = Xtr" by simp
    with c c' have "cols' = cols" by simp
    with sf sf' have "scaler' = scaler" by simp
    with r r' \<open>encoders' = encoders\<close> show ?thesis by simp
  qed
  have a: "\<exists>cs. getitems train cat_cols = Inr cs \<and>
      r_encoders r = [(''ordinal_encoder'', ordinal_fit cs)]"
    using cs r by blast
  have b: "\<exists>X y Xs ys Xtr Xva ytr yva cols.
            drop_columns (r_train r) [''is_fraud'', ''trans_num'', ''id''] = Inr X \<and>
            getitem (r_train r) ''is_fraud'' = Inr y \<and>
            smote_fit_resample ml 42 X y = Inr (Xs, ys) \<and>
            train_test_split ml 42 Xs ys = Inr (Xtr, Xva, ytr, yva) \<and>
            getitems Xtr numeric_features = Inr cols \<and>
            scaler_fit cols = Inr (r_scaler r) \<and>
            scale_numeric (r_scaler r) Xtr = Inr (r_X_train r) \<and>
            scale_numeric (r_scaler r) Xva = Inr (r_X_val r)"
    using x y sm sp c sf s1 s2 r by blast
  have c3: "\<exists>test1 Xt.
            feature_engineering_df env test (Some (r_encoders r)) False
              = (test1, Inr (r_encoders r)) \<and>
            drop_columns test1 [''trans_num'', ''id''] = Inr Xt \<and>
            scale_numeric (r_scaler r) Xt = Inr (r_X_test_submission r)"
    using f2 u xt s3 r by blast
  from a b c3 indep show ?thesis by blast
qed

text \<open>The theorem for a run on the reference tables.\<close>

theorem fitted_on_training_only_witness:
  "\<exists>r cs. pipeline (iso_env (Timestamp 2025 3 1 0 0 0) 0) stump_ml train_table raw_table = Inr r \<and>
     getitems train_table cat_cols = Inr cs \<and>
     r_encoders r = [(''ordinal_encoder'', ordinal_fit cs)]"
proof -
  from pipeline_runs [of "Timestamp 2025 3 1 0 0 0" 0] obtain r where
    r: "pipeline (iso_env (Timestamp 2025 3 1 0 0 0) 0) stump_ml train_table raw_table = Inr r" ..
  from fitted_on_training_only [OF r] r show ?thesis by blast
qed

subsection \<open>C2: balanced classes\<close>




subsection \<open>C3: the submission file\<close>

text \<open>
  C3. For a test table of N rows that has an \<open>id\<close> column, and a classifier that
  returns one label per row, the last cell succeeds and its output has exactly the two
  columns \<open>id\<close> and \<open>is_fraud\<close> and exactly N rows; the file written has that header
  and N records, and record k holds the identifier of row k of the test table and the
  label predicted for it, in the same order.
\<close>

theorem submission_rows:
  assumes "wf_frame test" and "getitem test ''id'' = Inr ids"
    and "predict X_test_submission = Inr y_test_pred" and "col_len y_test_pred = nrows test"
  shows "\<exists>test' csv. submission predict X_test_submission test
             = Inr (test', [(''id'', ids), (''is_fraud'', y_test_pred)], csv) \<and>
           nrows [(''id'', ids), (''is_fraud'', y_test_pred)] = nrows test \<and>
           fst csv = [''id'', ''is_fraud''] \<and> length (snd csv) = nrows test \<and>
           (\<forall>k < nrows test. snd csv ! k = [cells_of ids ! k, cells_of y_test_pred ! k])"
proof -
  let ?test' = "setitem test ''is_fraud'' y_test_pred"
  let ?sub = "[(''id'', ids), (''is_fraud'', y_test_pred)]"
  from assms(2) have id: "map_of test ''id'' = Some ids" by (simp add: getitem_Inr)
  have n: "col_len ids = nrows test" using wf_frame_col_len [OF assms(1) id] .
  have a: "setitem_array test ''is_fraud'' y_test_pred = Inr ?test'"
    using assms(4) by (simp add: setitem_array_def)
  have s: "select_columns ?test' [''id'', ''is_fraud''] = Inr ?sub"
    using id by (simp add: select_columns_Inr map_of_setitem)
  have run: "submission predict X_test_submission test = Inr (?test', ?sub, to_csv ?sub)"
    by (simp add: submission_def assms(3) a s ebind_def)
  have rows: "nrows ?sub = nrows test" using n by (simp add: nrows_def)
  have "snd (to_csv ?sub) ! k = [cells_of ids ! k, cells_of y_test_pred ! k]" if "k < nrows test" for k
    using that n by (simp add: to_csv_two)
  with run rows n show ?thesis by (simp add: to_csv_two)
qed

text \<open>The theorem on the two-row test table, with predicted labels 0 and 1.\<close>

theorem submission_rows_witness:
  "wf_frame predictions_table \<and>
   getitem predictions_table ''id'' = Inr (Numeric [Fin 7, Fin 8]) \<and>
   nrows predictions_table = 2 \<and>
   submission (\<lambda>X. Inr (Numeric [Fin 0, Fin 1])) [] predictions_table
     = Inr (setitem predictions_table ''is_fraud'' (Numeric [Fin 0, Fin 1]),
            [(''id'', Numeric [Fin 7, Fin 8]), (''is_fraud'', Numeric [Fin 0, Fin 1])],
            ([''id'', ''is_fraud''],
             [[Number (Fin 7), Number (Fin 0)], [Number (Fin 8), Number (Fin 1)]]))"
proof -
  have w: "wf_frame predictions_table"
    and g: "getitem predictions_table ''id'' = Inr (Numeric [Fin 7, Fin 8])"
    and n: "nrows predictions_table = 2"
    by (simp_all add: predictions_table_def wf_frame_def nrows_def getitem_def)
  have p: "(\<lambda>X. Inr (Numeric [Fin 0, Fin 1])) ([] :: frame) = (Inr (Numeric [Fin 0, Fin 1]) :: column res)"
    by simp
  have l: "col_len (Numeric [Fin 0, Fin 1]) = nrows predictions_table" using n by simp
  from submission_rows [OF w g p l]
  show ?thesis using w g n
    by (auto simp: submission_def ebind_def setitem_array_def select_columns_def to_csv_two
        map_of_setitem predictions_table_def upt_rec)
qed

subsection \<open>C4: categories not seen when fitting\<close>



subsection \<open>C5: transaction count\<close>

text \<open>
  C5, as the code has it. In every row of the engineered table \<open>trans_count\<close> is
  either NaN or a whole number from 0 to 3: the number of present \<open>unix_time\<close> values
  among the row and the (at most two) rows before it of the same cardholder, in row
  order. It is at least 1 when it is a number and the row's own \<open>unix_time\<close> is
  present. It is NaN exactly when the row has no cardholder key or its window holds
  fewer rows than the \<open>min_periods\<close> that pandas substitutes for the one the notebook
  leaves out: with the window size 3 (pandas 2) the first two rows of every cardholder
  are NaN, with 0 (the \<open>count\<close> of pandas 1) no row with a key is.
\<close>

theorem trans_count_range:
  assumes "feature_engineering_df env df encoders fit = (df', Inr encs)"
    and "getitem df ''cc_num'' = Inr cc" and "getitem df ''unix_time'' = Inr (Numeric ut)"
    and "col_len cc = length ut" and "k < length ut"
  shows "\<exists>tc. getitem df' ''trans_count'' = Inr (Numeric tc) \<and> length tc = length ut \<and>
           (tc ! k = NaN \<or> (\<exists>c. tc ! k = Fin (real c) \<and> c \<le> 3 \<and> (ut ! k \<noteq> NaN \<longrightarrow> 1 \<le> c))) \<and>
           (tc ! k = NaN \<longleftrightarrow>
              group_keys cc ! k = None \<or>
              min (Suc (group_pos (group_keys cc) k)) 3 < count_min_periods env)"
proof -
  let ?ks = "group_keys cc"
  let ?mp = "count_min_periods env"
  let ?tc = "transform_by cc ut (rolling_count ?mp 3)"
  from fe_columns [OF assms(1)] assms(2,3)
  have tc: "getitem df' ''trans_count'' = Inr (Numeric ?tc)"
    by (auto simp: getitem_Inr)
  have len: "length ?ks = length ut" using assms(4) by (simp add: length_group_keys)
  have k: "k < length ?ks" using assms(5) len by simp
  have ltc: "length ?tc = length ut"
    by (simp add: transform_by_def length_groupby_transform len)
  have nth: "?tc ! k = (case ?ks ! k of None \<Rightarrow> NaN
      | Some key \<Rightarrow> rolling_count ?mp 3 (group_values ?ks ut key) ! group_pos ?ks k)"
    using k by (simp add: transform_by_def groupby_transform_nth)
  have rest: "(?tc ! k = NaN \<or> (\<exists>c. ?tc ! k = Fin (real c) \<and> c \<le> 3 \<and> (ut ! k \<noteq> NaN \<longrightarrow> 1 \<le> c))) \<and>
      (?tc ! k = NaN \<longleftrightarrow> ?ks ! k = None \<or> min (Suc (group_pos ?ks k)) 3 < ?mp)"
  proof (cases "?ks ! k")
    case None
    then show ?thesis using nth by simp
  next
    case (Some key)
    let ?g = "group_values ?ks ut key"
    let ?p = "group_pos ?ks k"
    let ?xs = "take (Suc ?p) ?g"
    from group_value_at [OF len [symmetric] k Some]
    have p: "?p < length ?g" and v: "?g ! ?p = ut ! k" by simp_all
    have val: "?tc ! k = rolling_count_at ?mp 3 ?xs"
      using nth Some p by (simp add: rolling_count_nth)
    have ne: "?xs \<noteq> []" using p by auto
    have "last ?xs = ?g ! ?p"
      using p by (simp add: take_Suc_conv_app_nth)
    then have lastv: "last ?xs = ut ! k" using v by simp
    have lenxs: "length ?xs = Suc ?p" using p by simp
    from rolling_count_at_cases [of ?mp 3 ?xs] ne lastv
    have a: "?tc ! k = NaN \<or> (\<exists>c. ?tc ! k = Fin (real c) \<and> c \<le> 3 \<and> (ut ! k \<noteq> NaN \<longrightarrow> 1 \<le> c))"
      unfolding val by auto
    have b: "?tc ! k = NaN \<longleftrightarrow> min (Suc ?p) 3 < ?mp"
      unfolding val rolling_count_at_NaN lenxs ..
    from a b Some show ?thesis by simp
  qed
  from tc ltc rest show ?thesis by blast
qed

text \<open>The theorem at the second row of the reference table, with \<open>min_periods\<close> 0.\<close>

theorem trans_count_range_witness:
  "snd (feature_engineering_df (iso_env (Timestamp 2025 3 1 0 0 0) 0) raw_table None True) = Inr raw_encoders \<and>
   getitem raw_table ''cc_num'' = Inr (Numeric [Fin 4000, Fin 4000]) \<and>
   getitem raw_table ''unix_time'' = Inr (Numeric [Fin 1705323900, Fin 1705449599]) \<and>
   (\<exists>tc. getitem (fst (feature_engineering_df (iso_env (Timestamp 2025 3 1 0 0 0) 0) raw_table None True))
            ''trans_count'' = Inr (Numeric tc) \<and> length tc = 2 \<and>
          (\<exists>c. tc ! 1 = Fin (real c) \<and> c \<le> 3 \<and> 1 \<le> c))"
proof -
  have c: "getitem raw_table ''cc_num'' = Inr (Numeric [Fin 4000, Fin 4000])"
    and u: "getitem raw_table ''unix_time'' = Inr (Numeric [Fin 1705323900, Fin 1705449599])"
    by (simp_all add: getitem_def raw_table_lookup)
  from trans_count_range [OF fe_result [OF fe_raw_table [of "Timestamp 2025 3 1 0 0 0" 0]] c u, where k = 1]
  show ?thesis using c u fe_raw_table
    by (auto simp: group_keys_def group_pos_def iso_env_def)
qed

text \<open>
  The claim as stated (between 1 and 3 in every row) fails under either default: with
  \<open>min_periods\<close> 3 both rows of the reference table are NaN, and with
  \<open>min_periods\<close> 0 a row whose \<open>unix_time\<close> is missing counts 0.
\<close>

theorem trans_count_counterexample:
  "getitem (fst (feature_engineering_df (iso_env (Timestamp 2025 3 1 0 0 0) 3) raw_table None True))
     ''trans_count'' = Inr (Numeric [NaN, NaN]) \<and>
   getitem (fst (feature_engineering_df (iso_env (Timestamp 2025 3 1 0 0 0) 0)
       (setitem (setitem raw_table ''amt'' (Numeric [Fin 50, Fin 150])) ''unix_time''
          (Numeric [NaN, Fin 1705449599])) None True))
     ''trans_count'' = Inr (Numeric [Fin 0, Fin 1])"
proof -
  let ?t = "setitem (setitem raw_table ''amt'' (Numeric [Fin 50, Fin 150])) ''unix_time''
          (Numeric [NaN, Fin 1705449599])"
  from fe_columns [OF fe_result [OF fe_raw_table [of "Timestamp 2025 3 1 0 0 0" 3]]]
  have a: "getitem (fst (feature_engineering_df (iso_env (Timestamp 2025 3 1 0 0 0) 3) raw_table None True))
     ''trans_count'' = Inr (Numeric [NaN, NaN])"
    by (auto simp: getitem_def raw_table_lookup group_eval iso_env_def upt_rec)
  from fe_columns [OF fe_result [OF fe_raw_table_numeric
        [of "Timestamp 2025 3 1 0 0 0" 0 "[Fin 50, Fin 150]" "[NaN, Fin 1705449599]"]]]
  have b: "getitem (fst (feature_engineering_df (iso_env (Timestamp 2025 3 1 0 0 0) 0) ?t None True))
     ''trans_count'' = Inr (Numeric [Fin 0, Fin 1])"
    by (auto simp: getitem_def map_of_setitem raw_table_lookup group_eval iso_env_def upt_rec)
  from a b show ?thesis by simp
qed

subsection \<open>C6: amount per capita\<close>




subsection \<open>C7: determinism\<close>

text \<open>
  C7, as the code has it. The estimators are seeded with the constant 42, and the run
  is a function of the two tables, the libraries and the clock, which it reads only
  through the year of \<open>pd.Timestamp('now')\<close>: two runs on the same tables with the
  same libraries whose clocks show the same calendar year give the same outputs. The
  year is an input of its own, through the \<open>age\<close> column.
\<close>

theorem same_year_same_run:
  assumes "ts_year t = ts_year (now env)"
  shows "pipeline (env\<lparr>now := t\<rparr>) ml train test = pipeline env ml train test"
  unfolding pipeline_def feature_engineering_df_now [OF assms] ..

text \<open>The theorem for the first and the last second of 2025.\<close>

theorem same_year_same_run_witness:
  "ts_year (Timestamp 2025 12 31 23 59 59) = ts_year (now (iso_env (Timestamp 2025 1 1 0 0 0) 0)) \<and>
   pipeline ((iso_env (Timestamp 2025 1 1 0 0 0) 0)\<lparr>now := Timestamp 2025 12 31 23 59 59\<rparr>)
       stump_ml train_table raw_table
     = pipeline (iso_env (Timestamp 2025 1 1 0 0 0) 0) stump_ml train_table raw_table"
proof -
  have y: "ts_year (Timestamp 2025 12 31 23 59 59) = ts_year (now (iso_env (Timestamp 2025 1 1 0 0 0) 0))"
    by (simp add: iso_env_def)
  from same_year_same_run [OF y] y show ?thesis by blast
qed

text \<open>
  The claim as stated (input, seed and library version determine the outputs) fails: the
  same tables with the same libraries give another engineered training table in 2025
  than in 2024, the ages being 35 instead of 34.
\<close>

theorem run_depends_on_year_counterexample:
  "pipeline (iso_env (Timestamp 2024 6 1 0 0 0) 0) stump_ml train_table raw_table
     \<noteq> pipeline (iso_env (Timestamp 2025 6 1 0 0 0) 0) stump_ml train_table raw_table"
proof
  let ?e1 = "iso_env (Timestamp 2024 6 1 0 0 0) 0"
  let ?e2 = "iso_env (Timestamp 2025 6 1 0 0 0) 0"
  assume eq: "pipeline ?e1 stump_ml train_table raw_table = pipeline ?e2 stump_ml train_table raw_table"
  from pipeline_runs [of "Timestamp 2024 6 1 0 0 0" 0] obtain r where
    r1: "pipeline ?e1 stump_ml train_table raw_table = Inr r" ..
  with eq have r2: "pipeline ?e2 stump_ml train_table raw_table = Inr r" by simp
  from pipeline_Inr [OF r1] have a: "feature_engineering_df ?e1 train_table None True = (r_train r, Inr (r_encoders r))"
    by auto
  from pipeline_Inr [OF r2] have b: "feature_engineering_df ?e2 train_table None True = (r_train r, Inr (r_encoders r))"
    by auto
  from fe_train_table [of "Timestamp 2024 6 1 0 0 0" 0] a
  have "map_of (r_train r) ''age'' = Some (Numeric [Fin 34, Fin 34])" by auto
  moreover from fe_train_table [of "Timestamp 2025 6 1 0 0 0" 0] b
  have "map_of (r_train r) ''age'' = Some (Numeric [Fin 35, Fin 35])" by auto
  ultimately show False by simp
qed

subsection \<open>C8: what the call changes\<close>

text \<open>
  C8, as the code has it. \<open>feature_engineering\<close> works on the caller's table in
  place and returns that same object. No other object of the store is touched, whether
  the call returns or raises. When it returns, the caller's table has changed: the six
  dropped columns, which it had, are gone, and the seven derived columns are there. On
  the applying call the encoders dict is returned as it was passed.
\<close>

theorem feature_engineering_in_place:
  assumes "feature_engineering env h df encoders fit_encoders = (h', res)"
  shows "(\<forall>q. q \<noteq> df \<longrightarrow> h' q = h q) \<and>
         (\<forall>r encs. res = Inr (r, encs) \<longrightarrow>
            r = df \<and> h' df \<noteq> h df \<and>
            set dropped_cols \<subseteq> set (columns (h df)) \<and>
            set dropped_cols \<inter> set (columns (h' df)) = {} \<and>
            set derived_cols \<subseteq> set (columns (h' df)) \<and>
            (\<not> fit_encoders \<longrightarrow> encoders = Some encs))"
proof (cases "feature_engineering_df env (h df) encoders fit_encoders")
  case (Pair d r)
  show ?thesis
  proof (cases r)
    case (Inl e)
    with Pair assms show ?thesis by (auto simp: feature_engineering_def)
  next
    case (Inr encs)
    with Pair assms have h': "h' = h(df := d)" and res: "res = Inr (df, encs)"
      by (auto simp: feature_engineering_def)
    from Pair Inr have ok: "feature_engineering_df env (h df) encoders fit_encoders = (d, Inr encs)"
      by simp
    from fe_df_changes [OF ok] h' res show ?thesis by auto
  qed
qed

text \<open>The theorem for a store that holds the reference table at every address.\<close>

theorem feature_engineering_in_place_witness:
  "snd (feature_engineering (iso_env (Timestamp 2025 3 1 0 0 0) 3) (\<lambda>r. raw_table) 0 None True)
     = Inr (0, raw_encoders) \<and>
   fst (feature_engineering (iso_env (Timestamp 2025 3 1 0 0 0) 3) (\<lambda>r. raw_table) 0 None True) 1
     = raw_table \<and>
   set derived_cols \<subseteq> set (columns
     (fst (feature_engineering (iso_env (Timestamp 2025 3 1 0 0 0) 3) (\<lambda>r. raw_table) 0 None True) 0))"
proof -
  let ?env = "iso_env (Timestamp 2025 3 1 0 0 0) 3"
  let ?call = "feature_engineering ?env (\<lambda>r. raw_table) 0 None True"
  note ok = fe_result [OF fe_raw_table [of "Timestamp 2025 3 1 0 0 0" 3]]
  have s: "snd ?call = Inr (0, raw_encoders)"
    unfolding feature_engineering_def by (subst ok) simp
  have "?call = (fst ?call, snd ?call)" by simp
  from feature_engineering_in_place [OF this] s show ?thesis by auto
qed

text \<open>
  The claim as stated (the caller's table is left unchanged) fails: after the call the
  caller's table has lost its \<open>street\<close> column.
\<close>

theorem feature_engineering_in_place_counterexample:
  "''street'' \<in> set (columns raw_table) \<and>
   ''street'' \<notin> set (columns
     (fst (feature_engineering (iso_env (Timestamp 2025 3 1 0 0 0) 3) (\<lambda>r. raw_table) 0 None True) 0)) \<and>
   fst (feature_engineering (iso_env (Timestamp 2025 3 1 0 0 0) 3) (\<lambda>r. raw_table) 0 None True) 0
     \<noteq> raw_table"
proof -
  let ?env = "iso_env (Timestamp 2025 3 1 0 0 0) 3"
  let ?d = "fst (feature_engineering_df ?env raw_table None True)"
  have call: "fst (feature_engineering ?env (\<lambda>r. raw_table) 0 None True) 0 = ?d"
    by (simp add: feature_engineering_def split: prod.splits sum.splits)
  note ch = fe_df_changes [OF fe_result [OF fe_raw_table [of "Timestamp 2025 3 1 0 0 0" 3]]]
  have "''street'' \<in> set dropped_cols" by (simp add: dropped_cols_def)
  with ch(1,2,3) show ?thesis unfolding call by blast
qed

subsection \<open>C9: a missing column\<close>

text \<open>
  C9, as the code has it. \<open>feature_engineering\<close> has no error types of its own. When
  one of the raw columns it reads is absent from a table it would otherwise accept, the
  call fails with pandas' KeyError naming that column, raised by the first statement that
  reads it; the same holds when a fitted encoder is applied to a table that lacks one of
  the categorical columns (the KeyError comes from selecting the columns, before the
  encoder is reached).
\<close>

theorem missing_column_key_error:
  assumes "feature_engineering_df env df encoders fit_encoders = (df', Inr encs)"
    and "c \<in> set expected_cols"
  shows "\<exists>d. feature_engineering_df env (remove_columns df [c]) encoders fit_encoders
               = (d, Inl (KeyError [c]))"
  using assms by (rule fe_removed)

text \<open>The theorem for the reference table without its \<open>street\<close> column.\<close>

theorem missing_column_key_error_witness:
  "snd (feature_engineering_df (iso_env (Timestamp 2025 3 1 0 0 0) 3) raw_table None True)
     = Inr raw_encoders \<and>
   ''street'' \<in> set expected_cols \<and>
   snd (feature_engineering_df (iso_env (Timestamp 2025 3 1 0 0 0) 3)
          (remove_columns raw_table [''street'']) None True) = Inl (KeyError [''street''])"
proof -
  have c: "''street'' \<in> set expected_cols" by (simp add: expected_cols_def)
  from missing_column_key_error [OF fe_result [OF fe_raw_table [of "Timestamp 2025 3 1 0 0 0" 3]] c]
  show ?thesis using c fe_raw_table by auto
qed

text \<open>
  The claim as stated names a MissingColumnError and an EncodingMismatchError. Without
  \<open>amt\<close> the fitting call raises KeyError, and without \<open>city\<close> the applying call
  raises KeyError.
\<close>

theorem missing_column_counterexample:
  "snd (feature_engineering_df (iso_env (Timestamp 2025 3 1 0 0 0) 3)
          (remove_columns raw_table [''amt'']) None True) = Inl (Raise ''KeyError'' [''amt'']) \<and>
   snd (feature_engineering_df (iso_env (Timestamp 2025 3 1 0 0 0) 3)
          (remove_columns raw_table [''city'']) (Some raw_encoders) False)
     = Inl (Raise ''KeyError'' [''city''])"
proof -
  have a: "''amt'' \<in> set expected_cols" and c: "''city'' \<in> set expected_cols"
    by (simp_all add: expected_cols_def)
  from fe_removed [OF fe_result [OF fe_raw_table [of "Timestamp 2025 3 1 0 0 0" 3]] a]
    fe_removed [OF fe_result [OF fe_raw_table_applied [of "Timestamp 2025 3 1 0 0 0" 3]] c]
  show ?thesis by auto
qed

subsection \<open>C10: the spending ratio\<close>



end
